theory Spec2Isabelle
  imports Main
begin

section \<open>Data model\<close>

text \<open>
  An ObjectId is a value of 12 bytes, kept here as the values of its 24 hexadecimal
  digits. A request names a document by a string, which the driver casts to an ObjectId
  before it looks the document up. JavaScript strings are lists of code units; only the
  code units below 256 are representable.
\<close>

type_synonym objectId = "nat list"

text \<open>A JavaScript value that is a string, \<^verbatim>\<open>null\<close> or \<^verbatim>\<open>undefined\<close> (a missing field).\<close>

datatype jsval = Undefined | Null | Str string

text \<open>
  The user documents (\<^verbatim>\<open>userModel\<close>, whose schema is outside the sources): the fields the
  handlers read, and the profile fields of the specification.
\<close>

record user =
  user_id :: string
  userName :: string
  user_email :: string
  bio :: string
  preferences :: string
  user_avatarUrl :: jsval
  user_level_id :: int

text \<open>
  \<^verbatim>\<open>IAdminContact\<close> with \<^verbatim>\<open>AdminContactSchema\<close>: name, title and email are required and
  trimmed, position defaults to 0, the user reference is optional and
  \<^verbatim>\<open>timestamps: true\<close> adds createdAt and updatedAt (0 until the document is saved).
\<close>

record adminContact =
  cid :: objectId
  name :: string
  title :: string
  email :: string
  position :: int
  userRef :: "objectId option"
  createdAt :: nat
  updatedAt :: nat

text \<open>A contact of the \<^verbatim>\<open>getContacts\<close> response: \<^verbatim>\<open>{...contact, avatarUrl: ...}\<close>.\<close>

record enrichedContact = adminContact +
  avatarUrl :: jsval

text \<open>The two collections, each in its natural (insertion) order.\<close>

record db =
  contacts :: "adminContact list"
  users :: "user list"

text \<open>The update documents the handlers pass to \<^verbatim>\<open>findByIdAndUpdate\<close>.\<close>

record contactUpdate =
  set_name :: "string option"
  set_title :: "string option"
  set_email :: "string option"
  set_position :: "int option"

text \<open>
  The driver calls a handler awaits, with the arguments the handler passes. Each of them
  may reject for a reason outside the request (the connection is lost, the server answers
  with an error): \<open>rejects\<close> says which calls of the request do. \<open>clock\<close> is
  the time the driver stamps on the documents a call writes, \<open>newObjectId\<close> the id
  that \<^verbatim>\<open>new AdminContact(...)\<close> generates.
\<close>

datatype db_call =
    ContactFind
  | UserFindByEmail "string list"
  | UserFindByLevel "int list"
  | ContactSave adminContact
  | ContactFindByIdAndUpdate string contactUpdate
  | ContactFindByIdAndDelete string

record env =
  rejects :: "db_call \<Rightarrow> bool"
  clock :: "db_call \<Rightarrow> nat"
  newObjectId :: objectId

datatype dbError = DriverError | CastError | ValidationError | DuplicateKey

text \<open>
  What a handler does with the request: \<^verbatim>\<open>next(new CustomError(message, status))\<close> or
  \<^verbatim>\<open>res.status(code).json(body)\<close>.
\<close>

datatype customError = CustomError string nat

datatype json =
    ContactsBody "enrichedContact list"
  | MessageContactBody string adminContact
  | SuccessMessageBody bool string
  | MessageBody string
  | UserBody user

datatype outcome = Next customError | Respond nat json

fun statusOf :: "outcome \<Rightarrow> nat" where
  "statusOf (Next (CustomError m s)) = s"
| "statusOf (Respond s b) = s"

section \<open>Schema: setters and validators\<close>

text \<open>
  \<^verbatim>\<open>trim: true\<close> applies \<^verbatim>\<open>String.prototype.trim\<close>: the white space of ECMAScript among
  the code units below 256 is TAB, LF, VT, FF, CR, SP and NBSP.
\<close>

definition isWhiteSpace :: "char \<Rightarrow> bool" where
  "isWhiteSpace c = ((of_char c :: nat) \<in> {9, 10, 11, 12, 13, 32, 160})"

definition trim :: "string \<Rightarrow> string" where
  "trim s = rev (dropWhile isWhiteSpace (rev (dropWhile isWhiteSpace s)))"

text \<open>\<^verbatim>\<open>required: true\<close> on a String path: the value must be a non-empty string.\<close>

definition checkRequired :: "string \<Rightarrow> bool" where
  "checkRequired v = (v \<noteq> [])"

text \<open>The validators of a document, run by \<^verbatim>\<open>save()\<close>.\<close>

definition validateContact :: "adminContact \<Rightarrow> bool" where
  "validateContact c = (checkRequired (name c) \<and> checkRequired (title c) \<and> checkRequired (email c))"

text \<open>The update after casting: the string setters trim the values that are set.\<close>

definition castUpdate :: "contactUpdate \<Rightarrow> contactUpdate" where
  "castUpdate u = u\<lparr>set_name := map_option trim (set_name u),
                    set_title := map_option trim (set_title u),
                    set_email := map_option trim (set_email u)\<rparr>"

text \<open>The update validators (\<^verbatim>\<open>runValidators: true\<close>) run on the paths that are set.\<close>

definition requiredIfSet :: "string option \<Rightarrow> bool" where
  "requiredIfSet v = (case v of None \<Rightarrow> True | Some s \<Rightarrow> checkRequired s)"

definition validateUpdate :: "contactUpdate \<Rightarrow> bool" where
  "validateUpdate u = (requiredIfSet (set_name u) \<and> requiredIfSet (set_title u) \<and> requiredIfSet (set_email u))"

definition applyUpdate :: "contactUpdate \<Rightarrow> nat \<Rightarrow> adminContact \<Rightarrow> adminContact" where
  "applyUpdate u now c =
     c\<lparr>name := (case set_name u of None \<Rightarrow> name c | Some s \<Rightarrow> s),
       title := (case set_title u of None \<Rightarrow> title c | Some s \<Rightarrow> s),
       email := (case set_email u of None \<Rightarrow> email c | Some s \<Rightarrow> s),
       position := (case set_position u of None \<Rightarrow> position c | Some p \<Rightarrow> p),
       updatedAt := now\<rparr>"

section \<open>The driver calls\<close>

text \<open>\<^verbatim>\<open>AdminContact.find().sort({position: 1}).lean()\<close>\<close>

definition AdminContact_find_sorted :: "env \<Rightarrow> db \<Rightarrow> dbError + adminContact list" where
  "AdminContact_find_sorted e d =
     (if rejects e ContactFind then Inl DriverError
      else Inr (sort_key position (contacts d)))"

text \<open>\<^verbatim>\<open>userModel.find({email: {$in: emails}}).select('email avatarUrl').lean()\<close>\<close>

definition userModel_find_by_email :: "env \<Rightarrow> string list \<Rightarrow> db \<Rightarrow> dbError + user list" where
  "userModel_find_by_email e emails d =
     (if rejects e (UserFindByEmail emails) then Inl DriverError
      else Inr (filter (\<lambda>u. user_email u \<in> set emails) (users d)))"

text \<open>\<^verbatim>\<open>userModel.find({user_level_id: {$in: levels}}, "email")\<close>\<close>

definition userModel_find_by_level :: "env \<Rightarrow> int list \<Rightarrow> db \<Rightarrow> dbError + user list" where
  "userModel_find_by_level e levels d =
     (if rejects e (UserFindByLevel levels) then Inl DriverError
      else Inr (filter (\<lambda>u. user_level_id u \<in> set levels) (users d)))"

text \<open>
  \<^verbatim>\<open>new AdminContact({name, title, email})\<close>: the setters trim, position takes its
  default, the id is generated.
\<close>

definition new_AdminContact :: "env \<Rightarrow> string \<Rightarrow> string \<Rightarrow> string \<Rightarrow> adminContact" where
  "new_AdminContact e n t m =
     \<lparr>cid = newObjectId e, name = trim n, title = trim t, email = trim m, position = 0,
      userRef = None, createdAt = 0, updatedAt = 0\<rparr>"

text \<open>
  \<^verbatim>\<open>newContact.save()\<close>: validates, stamps the document and inserts it; the unique index
  on \<^verbatim>\<open>_id\<close> refuses an id that is already stored. The saved document is returned
  (the handler's \<^verbatim>\<open>newContact\<close> is updated in place).
\<close>

definition AdminContact_save :: "env \<Rightarrow> adminContact \<Rightarrow> db \<Rightarrow> (dbError + adminContact) \<times> db" where
  "AdminContact_save e c d =
     (if \<not> validateContact c then (Inl ValidationError, d)
      else if rejects e (ContactSave c) then (Inl DriverError, d)
      else if cid c \<in> set (map cid (contacts d)) then (Inl DuplicateKey, d)
      else let c' = c\<lparr>createdAt := clock e (ContactSave c), updatedAt := clock e (ContactSave c)\<rparr>
           in (Inr c', d\<lparr>contacts := contacts d @ [c']\<rparr>))"

text \<open>The first element that satisfies \<open>P\<close>, replaced or removed.\<close>

fun update_first :: "('a \<Rightarrow> bool) \<Rightarrow> ('a \<Rightarrow> 'a) \<Rightarrow> 'a list \<Rightarrow> 'a list" where
  "update_first P f [] = []"
| "update_first P f (x # xs) = (if P x then f x # xs else x # update_first P f xs)"

fun remove_first :: "('a \<Rightarrow> bool) \<Rightarrow> 'a list \<Rightarrow> 'a list" where
  "remove_first P [] = []"
| "remove_first P (x # xs) = (if P x then xs else x # remove_first P xs)"

text \<open>
  The cast of a request id, \<^verbatim>\<open>new ObjectId(id)\<close>: a string of 24 hexadecimal digits
  (\<^verbatim>\<open>/^[0-9a-fA-F]{24}$/\<close>, so upper and lower case name the same ObjectId) is the
  ObjectId with these digits; for every other string the cast throws (\<open>None\<close>), and the
  query rejects with a CastError.
\<close>

definition isHexDigit :: "char \<Rightarrow> bool" where
  "isHexDigit c =
     (let n = (of_char c :: nat) in (48 \<le> n \<and> n \<le> 57) \<or> (65 \<le> n \<and> n \<le> 70) \<or> (97 \<le> n \<and> n \<le> 102))"

definition hexValue :: "char \<Rightarrow> nat" where
  "hexValue c =
     (let n = (of_char c :: nat) in if n \<le> 57 then n - 48 else if n \<le> 70 then n - 55 else n - 87)"

definition castObjectId :: "string \<Rightarrow> objectId option" where
  "castObjectId s = (if length s = 24 \<and> list_all isHexDigit s then Some (map hexValue s) else None)"

text \<open>
  \<^verbatim>\<open>AdminContact.findByIdAndUpdate(id, update, {new: true, runValidators})\<close>: the updated
  document, or \<^verbatim>\<open>null\<close> (\<open>None\<close>) when no contact has the ObjectId that the id is cast
  to. The loop of \<^verbatim>\<open>reorderContacts\<close> calls it without options and ignores the document
  it returns.
\<close>

definition AdminContact_findByIdAndUpdate ::
  "env \<Rightarrow> string \<Rightarrow> contactUpdate \<Rightarrow> bool \<Rightarrow> db \<Rightarrow> (dbError + adminContact option) \<times> db" where
  "AdminContact_findByIdAndUpdate e i u runValidators d =
     (case castObjectId i of
        None \<Rightarrow> (Inl CastError, d)
      | Some oid \<Rightarrow>
          if runValidators \<and> \<not> validateUpdate (castUpdate u) then (Inl ValidationError, d)
          else if rejects e (ContactFindByIdAndUpdate i u) then (Inl DriverError, d)
          else (case find (\<lambda>c. cid c = oid) (contacts d) of
                  None \<Rightarrow> (Inr None, d)
                | Some c \<Rightarrow>
                    let c' = applyUpdate (castUpdate u) (clock e (ContactFindByIdAndUpdate i u)) c
                    in (Inr (Some c'),
                        d\<lparr>contacts := update_first (\<lambda>c. cid c = oid) (\<lambda>c. c') (contacts d)\<rparr>)))"

text \<open>\<^verbatim>\<open>AdminContact.findByIdAndDelete(id)\<close>: the deleted document, or \<^verbatim>\<open>null\<close>.\<close>

definition AdminContact_findByIdAndDelete ::
  "env \<Rightarrow> string \<Rightarrow> db \<Rightarrow> (dbError + adminContact option) \<times> db" where
  "AdminContact_findByIdAndDelete e i d =
     (case castObjectId i of
        None \<Rightarrow> (Inl CastError, d)
      | Some oid \<Rightarrow>
          if rejects e (ContactFindByIdAndDelete i) then (Inl DriverError, d)
          else (case find (\<lambda>c. cid c = oid) (contacts d) of
                  None \<Rightarrow> (Inr None, d)
                | Some c \<Rightarrow>
                    (Inr (Some c), d\<lparr>contacts := remove_first (\<lambda>c. cid c = oid) (contacts d)\<rparr>)))"

section \<open>adminContactController\<close>

text \<open>JavaScript truthiness of an optional string: \<^verbatim>\<open>!v\<close> holds for a missing and for the empty one.\<close>

definition falsy :: "string option \<Rightarrow> bool" where
  "falsy v = (case v of None \<Rightarrow> True | Some s \<Rightarrow> s = [])"

text \<open>\<^verbatim>\<open>[2, 3].includes(user.user_level_id)\<close>\<close>

definition isAdminLevel :: "user \<Rightarrow> bool" where
  "isAdminLevel u = (user_level_id u \<in> set [2, 3])"

text \<open>\<^verbatim>\<open>new Map(users.map((u) => [u.email, u.avatarUrl]))\<close>: a later entry replaces an earlier one.\<close>

definition js_Map :: "('k \<times> 'v) list \<Rightarrow> ('k \<rightharpoonup> 'v)" where
  "js_Map entries = foldl (\<lambda>m (k, v). m(k \<mapsto> v)) Map.empty entries"

text \<open>\<^verbatim>\<open>userMap.get(k)\<close> is \<^verbatim>\<open>undefined\<close> for a key that is not there.\<close>

definition js_Map_get :: "('k \<rightharpoonup> jsval) \<Rightarrow> 'k \<Rightarrow> jsval" where
  "js_Map_get m k = (case m k of None \<Rightarrow> Undefined | Some v \<Rightarrow> v)"

text \<open>\<^verbatim>\<open>v || null\<close>: \<^verbatim>\<open>undefined\<close>, \<^verbatim>\<open>null\<close> and the empty string are falsy.\<close>

fun orNull :: "jsval \<Rightarrow> jsval" where
  "orNull Undefined = Null"
| "orNull Null = Null"
| "orNull (Str s) = (if s = [] then Null else Str s)"

definition enrich :: "jsval \<Rightarrow> adminContact \<Rightarrow> enrichedContact" where
  "enrich a c = adminContact.extend c \<lparr>avatarUrl = a\<rparr>"

definition getContacts :: "env \<Rightarrow> db \<Rightarrow> outcome \<times> db" where
  "getContacts e d =
     (case AdminContact_find_sorted e d of
        Inl err \<Rightarrow> (Next (CustomError ''Failed to fetch contacts'' 500), d)
      | Inr cs \<Rightarrow>
          let emails = map email cs in
          (case userModel_find_by_email e emails d of
             Inl err \<Rightarrow> (Next (CustomError ''Failed to fetch contacts'' 500), d)
           | Inr us \<Rightarrow>
               let userMap = js_Map (map (\<lambda>u. (user_email u, user_avatarUrl u)) us);
                   enrichedContacts =
                     map (\<lambda>contact. enrich (orNull (js_Map_get userMap (email contact))) contact) cs
               in (Respond 200 (ContactsBody enrichedContacts), d)))"

text \<open>The request body of \<^verbatim>\<open>addContact\<close>; \<open>None\<close> is a field that is not there.\<close>

record addBody =
  body_name :: "string option"
  body_title :: "string option"
  body_email :: "string option"

definition addContact :: "env \<Rightarrow> user option \<Rightarrow> addBody \<Rightarrow> db \<Rightarrow> outcome \<times> db" where
  "addContact e usr body d =
     (case usr of
        None \<Rightarrow> (Next (CustomError ''Unauthorized, no user found'' 401), d)
      | Some u \<Rightarrow>
          if \<not> isAdminLevel u then (Next (CustomError ''Forbidden, not an admin'' 403), d)
          else if falsy (body_name body) \<or> falsy (body_title body) \<or> falsy (body_email body)
          then (Next (CustomError ''All fields are required'' 400), d)
          else
            (case (body_name body, body_title body, body_email body) of
               (Some n, Some t, Some m) \<Rightarrow>
                 (case AdminContact_save e (new_AdminContact e n t m) d of
                    (Inl err, d') \<Rightarrow> (Next (CustomError ''Failed to add contact'' 500), d')
                  | (Inr newContact, d') \<Rightarrow>
                      (Respond 201 (MessageContactBody ''Admin contact added successfully'' newContact), d'))
             | _ \<Rightarrow> (Next (CustomError ''All fields are required'' 400), d)))"

text \<open>The request body of \<^verbatim>\<open>updateContact\<close>: \<^verbatim>\<open>{name?, title?, email?}\<close>.\<close>

definition updateOfBody :: "addBody \<Rightarrow> contactUpdate" where
  "updateOfBody body =
     \<lparr>set_name = body_name body, set_title = body_title body, set_email = body_email body,
      set_position = None\<rparr>"

definition updateContact :: "env \<Rightarrow> user option \<Rightarrow> string \<Rightarrow> addBody \<Rightarrow> db \<Rightarrow> outcome \<times> db" where
  "updateContact e usr i body d =
     (case usr of
        None \<Rightarrow> (Next (CustomError ''Unauthorized, no user found'' 401), d)
      | Some u \<Rightarrow>
          if \<not> isAdminLevel u then (Next (CustomError ''Forbidden, not an admin'' 403), d)
          else
            (case AdminContact_findByIdAndUpdate e i (updateOfBody body) True d of
               (Inl err, d') \<Rightarrow> (Next (CustomError ''Failed to update contact'' 500), d')
             | (Inr None, d') \<Rightarrow> (Next (CustomError ''Contact not found'' 404), d')
             | (Inr (Some updatedContact), d') \<Rightarrow>
                 (Respond 200 (MessageContactBody ''Contact updated successfully'' updatedContact), d')))"

definition deleteContact :: "env \<Rightarrow> user option \<Rightarrow> string \<Rightarrow> db \<Rightarrow> outcome \<times> db" where
  "deleteContact e usr i d =
     (case usr of
        None \<Rightarrow> (Next (CustomError ''Unauthorized, no user found'' 401), d)
      | Some u \<Rightarrow>
          if \<not> isAdminLevel u then (Next (CustomError ''Forbidden, not an admin'' 403), d)
          else
            (case AdminContact_findByIdAndDelete e i d of
               (Inl err, d') \<Rightarrow> (Next (CustomError ''Failed to delete contact'' 500), d')
             | (Inr None, d') \<Rightarrow> (Next (CustomError ''Contact not found'' 404), d')
             | (Inr (Some deletedContact), d') \<Rightarrow>
                 (Respond 200 (SuccessMessageBody True ''Contact deleted successfully''), d')))"

text \<open>\<^verbatim>\<open>req.body.orderedIds\<close>: an array of ids, or anything else.\<close>

datatype orderedIdsField = NotAnArray | IdArray "string list"

definition positionUpdate :: "nat \<Rightarrow> contactUpdate" where
  "positionUpdate index =
     \<lparr>set_name = None, set_title = None, set_email = None, set_position = Some (int index)\<rparr>"

text \<open>
  The loop \<^verbatim>\<open>for (let index = 0; index < orderedIds.length; index++)\<close>, from \<open>index\<close> on
  the ids that are left. A rejected update leaves the loop; the updates made so far stay.
\<close>

fun reorderLoop :: "env \<Rightarrow> nat \<Rightarrow> string list \<Rightarrow> db \<Rightarrow> (dbError + unit) \<times> db" where
  "reorderLoop e index [] d = (Inr (), d)"
| "reorderLoop e index (i # rest) d =
     (case AdminContact_findByIdAndUpdate e i (positionUpdate index) False d of
        (Inl err, d') \<Rightarrow> (Inl err, d')
      | (Inr r, d') \<Rightarrow> reorderLoop e (Suc index) rest d')"

definition reorderContacts :: "env \<Rightarrow> user option \<Rightarrow> orderedIdsField \<Rightarrow> db \<Rightarrow> outcome \<times> db" where
  "reorderContacts e usr orderedIds d =
     (case usr of
        None \<Rightarrow> (Next (CustomError ''Unauthorized, no user found'' 401), d)
      | Some u \<Rightarrow>
          if \<not> isAdminLevel u then (Next (CustomError ''Forbidden, not an admin'' 403), d)
          else
            (case orderedIds of
               NotAnArray \<Rightarrow> (Next (CustomError ''Invalid ordered IDs array'' 400), d)
             | IdArray ids \<Rightarrow>
                 if length ids = 0 then (Next (CustomError ''Invalid ordered IDs array'' 400), d)
                 else
                   (case reorderLoop e 0 ids d of
                      (Inl err, d') \<Rightarrow> (Next (CustomError ''Failed to reorder contacts'' 500), d')
                    | (Inr r, d') \<Rightarrow>
                        (Respond 200 (MessageBody ''Contacts reordered successfully''), d'))))"

section \<open>Admin email lookup\<close>

definition adminLevels :: "int list" where
  "adminLevels = [2, 3]"

text \<open>\<^verbatim>\<open>getAdminEmails\<close> has no handler of its own: a rejected query rejects the call.\<close>

definition getAdminEmails :: "env \<Rightarrow> db \<Rightarrow> (dbError + string list) \<times> db" where
  "getAdminEmails e d =
     (case userModel_find_by_level e adminLevels d of
        Inl err \<Rightarrow> (Inl err, d)
      | Inr admins \<Rightarrow> (Inr (map user_email admins), d))"

section \<open>Profile handlers\<close>

record profileFields =
  new_userName :: "string option"
  new_email :: "string option"
  new_bio :: "string option"
  new_preferences :: "string option"

definition applyProfile :: "profileFields \<Rightarrow> user \<Rightarrow> user" where
  "applyProfile f u =
     u\<lparr>userName := (case new_userName f of None \<Rightarrow> userName u | Some s \<Rightarrow> s),
       user_email := (case new_email f of None \<Rightarrow> user_email u | Some s \<Rightarrow> s),
       bio := (case new_bio f of None \<Rightarrow> bio u | Some s \<Rightarrow> s),
       preferences := (case new_preferences f of None \<Rightarrow> preferences u | Some s \<Rightarrow> s)\<rparr>"

text \<open>
  Modelled from the spec: the controller \<^verbatim>\<open>updateProfile\<close> of
  \<^verbatim>\<open>../controllers/profileController\<close> is not among the sources; only the route that mounts
  it behind \<^verbatim>\<open>authenticate\<close> and documents its 403 and 404 answers is. The spec:
  it fails with Forbidden (403) if the requesting user does not own the target id, with
  NotFound (404) if the target user does not exist, and otherwise applies the partial
  updates (userName, email, bio, preferences) and returns the updated user.
\<close>

definition updateProfile :: "user \<Rightarrow> string \<Rightarrow> profileFields \<Rightarrow> db \<Rightarrow> outcome \<times> db" where
  "updateProfile requestingUser targetId f d =
     (if user_id requestingUser \<noteq> targetId
      then (Next (CustomError (''Cannot update another user'' @ [CHR 0x27] @ ''s profile'') 403), d)
      else (case find (\<lambda>u. user_id u = targetId) (users d) of
              None \<Rightarrow> (Next (CustomError ''User not found'' 404), d)
            | Some u \<Rightarrow>
                (Respond 200 (UserBody (applyProfile f u)),
                 d\<lparr>users := update_first (\<lambda>u. user_id u = targetId) (applyProfile f) (users d)\<rparr>)))"

section \<open>Stored states\<close>

text \<open>MongoDB keeps \<^verbatim>\<open>_id\<close> unique in a collection: no two contacts have the same ObjectId.\<close>

definition wf_db :: "db \<Rightarrow> bool" where
  "wf_db d = distinct (map cid (contacts d))"

section \<open>Sample states and requests\<close>

text \<open>The ObjectIds of the sample contacts, and the one generated for a new contact.\<close>

definition oidA :: objectId where
  "oidA = map hexValue ''a10000000000000000000001''"

definition oidB :: objectId where
  "oidB = map hexValue ''b20000000000000000000002''"

definition oidC :: objectId where
  "oidC = map hexValue ''c30000000000000000000003''"

definition oidD :: objectId where
  "oidD = map hexValue ''d40000000000000000000004''"

definition env_ok :: env where
  "env_ok = \<lparr>rejects = (\<lambda>c. False), clock = (\<lambda>c. 7), newObjectId = oidD\<rparr>"

definition admin0 :: user where
  "admin0 = \<lparr>user_id = ''u1'', userName = ''ann'', user_email = ''ann@x.fi'', bio = [],
     preferences = [], user_avatarUrl = Str ''ann.png'', user_level_id = 2\<rparr>"

definition guest0 :: user where
  "guest0 = \<lparr>user_id = ''u2'', userName = ''bob'', user_email = ''bob@x.fi'', bio = [],
     preferences = [], user_avatarUrl = Str [], user_level_id = 1\<rparr>"

definition contactA :: adminContact where
  "contactA = \<lparr>cid = oidA, name = ''Ann'', title = ''Dean'', email = ''ann@x.fi'', position = 2,
     userRef = None, createdAt = 1, updatedAt = 1\<rparr>"

definition contactB :: adminContact where
  "contactB = \<lparr>cid = oidB, name = ''Bob'', title = ''Advisor'', email = ''bob@x.fi'', position = 0,
     userRef = None, createdAt = 2, updatedAt = 2\<rparr>"

definition contactC :: adminContact where
  "contactC = \<lparr>cid = oidC, name = ''Cid'', title = ''Clerk'', email = ''cid@x.fi'', position = 1,
     userRef = None, createdAt = 3, updatedAt = 3\<rparr>"

definition db0 :: db where
  "db0 = \<lparr>contacts = [contactA, contactB, contactC], users = [admin0, guest0]\<rparr>"

section \<open>Auxiliary lemmas\<close>

lemma update_first_length: "length (update_first P f xs) = length xs"
  by (induction xs) auto

lemma update_first_const: "find P xs = Some c \<Longrightarrow> update_first P (\<lambda>x. g c) xs = update_first P g xs"
  by (induction xs) (auto split: if_splits)

lemma update_first_none: "find P xs = None \<Longrightarrow> update_first P g xs = xs"
  by (induction xs) (auto split: if_splits)

lemma update_first_nth: "p < length xs \<Longrightarrow> \<not> P (xs ! p) \<Longrightarrow> update_first P g xs ! p = xs ! p"
  by (induction xs arbitrary: p) (auto simp: nth_Cons split: nat.splits)

lemma update_first_map_key:
  "(\<And>x. k (g x) = k x) \<Longrightarrow> map k (update_first P g xs) = map k xs"
  by (induction xs) auto

lemma map_if_absent:
  "i \<notin> k ` set xs \<Longrightarrow> map (\<lambda>x. if k x = i then g x else x) xs = xs"
  by (induction xs) auto

lemma update_first_distinct:
  "distinct (map k xs) \<Longrightarrow> update_first (\<lambda>x. k x = i) g xs = map (\<lambda>x. if k x = i then g x else x) xs"
  by (induction xs) (auto simp: map_if_absent)

lemma find_Some_holds: "find P xs = Some c \<Longrightarrow> P c \<and> c \<in> set xs"
  by (induction xs) (auto split: if_splits)

lemma remove_first_remove1:
  "find P xs = Some c \<Longrightarrow> remove_first P xs = remove1 c xs"
  by (induction xs) (auto split: if_splits dest: find_Some_holds)

lemma castUpdate_positionUpdate: "castUpdate (positionUpdate n) = positionUpdate n"
  by (simp add: castUpdate_def positionUpdate_def)

lemma applyUpdate_cid: "cid (applyUpdate u t c) = cid c"
  by (simp add: applyUpdate_def)

lemma applyUpdate_position: "position (applyUpdate (positionUpdate n) t c) = int n"
  by (simp add: applyUpdate_def positionUpdate_def)

lemma findByIdAndUpdate_ok:
  assumes "castObjectId i = Some oid" "\<not> rejects e (ContactFindByIdAndUpdate i u)"
    "rv \<longrightarrow> validateUpdate (castUpdate u)"
  shows "AdminContact_findByIdAndUpdate e i u rv d =
           (Inr (map_option (applyUpdate (castUpdate u) (clock e (ContactFindByIdAndUpdate i u)))
                   (find (\<lambda>c. cid c = oid) (contacts d))),
            d\<lparr>contacts := update_first (\<lambda>c. cid c = oid)
                 (applyUpdate (castUpdate u) (clock e (ContactFindByIdAndUpdate i u))) (contacts d)\<rparr>)"
  using assms
  by (auto simp: AdminContact_findByIdAndUpdate_def Let_def update_first_none update_first_const
           split: option.splits)

lemma findByIdAndUpdate_failed:
  "castObjectId i = None \<or> rejects e (ContactFindByIdAndUpdate i u) \<Longrightarrow>
   \<exists>err. AdminContact_findByIdAndUpdate e i u rv d = (Inl err, d)"
  by (auto simp: AdminContact_findByIdAndUpdate_def split: option.splits)

lemma reorderLoop_step:
  assumes "castObjectId i = Some oid" "\<not> rejects e (ContactFindByIdAndUpdate i (positionUpdate n))"
  shows "reorderLoop e n (i # rest) d =
         reorderLoop e (Suc n) rest
           (d\<lparr>contacts := update_first (\<lambda>c. cid c = oid)
                (applyUpdate (positionUpdate n) (clock e (ContactFindByIdAndUpdate i (positionUpdate n))))
                (contacts d)\<rparr>)"
  using findByIdAndUpdate_ok[OF assms, of False d]
  by (simp add: castUpdate_positionUpdate)

lemma reorderLoop_frame:
  "users (snd (reorderLoop e n ids d)) = users d \<and>
   map cid (contacts (snd (reorderLoop e n ids d))) = map cid (contacts d) \<and>
   (\<forall>p < length (contacts d). (\<forall>i \<in> set ids. castObjectId i \<noteq> Some (cid (contacts d ! p))) \<longrightarrow>
        contacts (snd (reorderLoop e n ids d)) ! p = contacts d ! p)"
proof (induction ids arbitrary: n d)
  case Nil
  show ?case by simp
next
  case (Cons i rest)
  show ?case
  proof (cases "castObjectId i = None \<or> rejects e (ContactFindByIdAndUpdate i (positionUpdate n))")
    case True
    from findByIdAndUpdate_failed[OF True, of False d]
    show ?thesis by auto
  next
    case False
    then obtain oid where oid: "castObjectId i = Some oid"
      and nr: "\<not> rejects e (ContactFindByIdAndUpdate i (positionUpdate n))" by auto
    let ?g = "applyUpdate (positionUpdate n) (clock e (ContactFindByIdAndUpdate i (positionUpdate n)))"
    let ?d1 = "d\<lparr>contacts := update_first (\<lambda>c. cid c = oid) ?g (contacts d)\<rparr>"
    have step: "reorderLoop e n (i # rest) d = reorderLoop e (Suc n) rest ?d1"
      by (rule reorderLoop_step[OF oid nr])
    have ids1: "map cid (contacts ?d1) = map cid (contacts d)"
      by (simp add: update_first_map_key applyUpdate_cid)
    have len1: "length (contacts ?d1) = length (contacts d)"
      by (simp add: update_first_length)
    note IH = Cons.IH[of "Suc n" ?d1]
    have "\<forall>p < length (contacts d).
            (\<forall>j \<in> set (i # rest). castObjectId j \<noteq> Some (cid (contacts d ! p))) \<longrightarrow>
            contacts (snd (reorderLoop e (Suc n) rest ?d1)) ! p = contacts d ! p"
    proof (intro allI impI)
      fix p assume p: "p < length (contacts d)"
        and notin: "\<forall>j \<in> set (i # rest). castObjectId j \<noteq> Some (cid (contacts d ! p))"
      from notin oid have ne: "cid (contacts d ! p) \<noteq> oid" by auto
      have a: "contacts ?d1 ! p = contacts d ! p"
        using p ne by (simp add: update_first_nth)
      from notin a have "\<forall>j \<in> set rest. castObjectId j \<noteq> Some (cid (contacts ?d1 ! p))" by simp
      with IH p len1 a show "contacts (snd (reorderLoop e (Suc n) rest ?d1)) ! p = contacts d ! p"
        by auto
    qed
    with IH ids1 step show ?thesis by simp
  qed
qed

lemma reorderLoop_ok:
  "(\<forall>k < length ids. castObjectId (ids ! k) \<noteq> None \<and>
       \<not> rejects e (ContactFindByIdAndUpdate (ids ! k) (positionUpdate (n + k)))) \<Longrightarrow>
   fst (reorderLoop e n ids d) = Inr ()"
proof (induction ids arbitrary: n d)
  case Nil
  show ?case by simp
next
  case (Cons i rest)
  from Cons.prems obtain oid where oid: "castObjectId i = Some oid"
    and r0: "\<not> rejects e (ContactFindByIdAndUpdate i (positionUpdate n))"
    by (auto dest: spec[of _ 0])
  from Cons.prems have rest: "\<forall>k < length rest. castObjectId (rest ! k) \<noteq> None \<and>
      \<not> rejects e (ContactFindByIdAndUpdate (rest ! k) (positionUpdate (Suc n + k)))"
    by (auto dest: spec[of _ "Suc _"])
  show ?case
    using reorderLoop_step[OF oid r0, of rest d] Cons.IH[OF rest] by simp
qed

lemma reorderLoop_positions:
  assumes "\<forall>k < length ids. castObjectId (ids ! k) \<noteq> None \<and>
             \<not> rejects e (ContactFindByIdAndUpdate (ids ! k) (positionUpdate (n + k)))"
    and "distinct (map cid (contacts d))"
    and "k < length ids"
    and "\<forall>j. k < j \<and> j < length ids \<longrightarrow> castObjectId (ids ! j) \<noteq> castObjectId (ids ! k)"
    and "c \<in> set (contacts (snd (reorderLoop e n ids d)))" and "castObjectId (ids ! k) = Some (cid c)"
  shows "position c = int (n + k)"
  using assms
proof (induction ids arbitrary: n d k)
  case Nil
  then show ?case by simp
next
  case (Cons i rest)
  from Cons.prems(1) obtain oid where oid: "castObjectId i = Some oid"
    and r0: "\<not> rejects e (ContactFindByIdAndUpdate i (positionUpdate n))"
    by (auto dest: spec[of _ 0])
  from Cons.prems(1) have rest: "\<forall>k < length rest. castObjectId (rest ! k) \<noteq> None \<and>
      \<not> rejects e (ContactFindByIdAndUpdate (rest ! k) (positionUpdate (Suc n + k)))"
    by (auto dest: spec[of _ "Suc _"])
  let ?g = "applyUpdate (positionUpdate n) (clock e (ContactFindByIdAndUpdate i (positionUpdate n)))"
  let ?d1 = "d\<lparr>contacts := update_first (\<lambda>c. cid c = oid) ?g (contacts d)\<rparr>"
  have step: "reorderLoop e n (i # rest) d = reorderLoop e (Suc n) rest ?d1"
    by (rule reorderLoop_step[OF oid r0])
  have ids1: "map cid (contacts ?d1) = map cid (contacts d)"
    by (simp add: update_first_map_key applyUpdate_cid)
  have dist1: "distinct (map cid (contacts ?d1))"
    using ids1 Cons.prems(2) by simp
  have cin: "c \<in> set (contacts (snd (reorderLoop e (Suc n) rest ?d1)))"
    using Cons.prems(5) step by simp
  show ?case
  proof (cases k)
    case 0
    then have ci: "cid c = oid" using Cons.prems(6) oid by simp
    have notin: "\<forall>j \<in> set rest. castObjectId j \<noteq> Some oid"
    proof
      fix j assume "j \<in> set rest"
      then obtain m where "m < length rest" "rest ! m = j" by (auto simp: in_set_conv_nth)
      with Cons.prems(4) 0 oid show "castObjectId j \<noteq> Some oid"
        by (auto dest: spec[of _ "Suc m"])
    qed
    note fr = reorderLoop_frame[of e "Suc n" rest ?d1]
    from cin obtain p where p: "p < length (contacts (snd (reorderLoop e (Suc n) rest ?d1)))"
      and cp: "contacts (snd (reorderLoop e (Suc n) rest ?d1)) ! p = c"
      by (auto simp: in_set_conv_nth)
    from fr have leq: "length (contacts (snd (reorderLoop e (Suc n) rest ?d1))) = length (contacts ?d1)"
      by (metis length_map)
    have cidp: "cid (contacts ?d1 ! p) = cid c"
    proof -
      have "map cid (contacts (snd (reorderLoop e (Suc n) rest ?d1))) ! p = map cid (contacts ?d1) ! p"
        using fr by simp
      then show ?thesis using p leq cp by simp
    qed
    have "\<forall>j \<in> set rest. castObjectId j \<noteq> Some (cid (contacts ?d1 ! p))"
      using notin cidp ci by simp
    then have "contacts (snd (reorderLoop e (Suc n) rest ?d1)) ! p = contacts ?d1 ! p"
      using fr p leq by auto
    then have c1: "c = contacts ?d1 ! p" using cp by simp
    have "contacts ?d1 = map (\<lambda>x. if cid x = oid then ?g x else x) (contacts d)"
      using update_first_distinct[OF Cons.prems(2)] by simp
    then have "contacts ?d1 ! p = (if cid (contacts d ! p) = oid then ?g (contacts d ! p) else contacts d ! p)"
      using p leq by (simp add: update_first_length)
    with c1 ci have "c = ?g (contacts d ! p)"
      by (auto split: if_splits)
    then show ?thesis using 0 by (simp add: applyUpdate_position)
  next
    case (Suc k')
    have "position c = int (Suc n + k')"
    proof (rule Cons.IH[OF rest dist1 _ _ cin])
      show "k' < length rest" using Cons.prems(3) Suc by simp
      show "\<forall>j. k' < j \<and> j < length rest \<longrightarrow> castObjectId (rest ! j) \<noteq> castObjectId (rest ! k')"
        using Cons.prems(4) Suc by (auto dest: spec[of _ "Suc _"])
      show "castObjectId (rest ! k') = Some (cid c)" using Cons.prems(6) Suc by simp
    qed
    then show ?thesis using Suc by simp
  qed
qed

lemma reorderLoop_split:
  assumes "k < length ids"
    and "\<forall>j < k. castObjectId (ids ! j) \<noteq> None \<and>
           \<not> rejects e (ContactFindByIdAndUpdate (ids ! j) (positionUpdate (n + j)))"
    and "castObjectId (ids ! k) = None \<or>
         rejects e (ContactFindByIdAndUpdate (ids ! k) (positionUpdate (n + k)))"
  shows "\<exists>err. reorderLoop e n ids d = (Inl err, snd (reorderLoop e n (take k ids) d))"
  using assms
proof (induction ids arbitrary: n d k)
  case Nil
  then show ?case by simp
next
  case (Cons i rest)
  show ?case
  proof (cases k)
    case 0
    with Cons.prems(3)
    have "castObjectId i = None \<or> rejects e (ContactFindByIdAndUpdate i (positionUpdate n))" by simp
    from findByIdAndUpdate_failed[OF this, of False d] 0 show ?thesis by auto
  next
    case (Suc k')
    from Cons.prems(2) Suc obtain oid where oid: "castObjectId i = Some oid"
      and r0: "\<not> rejects e (ContactFindByIdAndUpdate i (positionUpdate n))"
      by (auto dest: spec[of _ 0])
    let ?g = "applyUpdate (positionUpdate n) (clock e (ContactFindByIdAndUpdate i (positionUpdate n)))"
    let ?d1 = "d\<lparr>contacts := update_first (\<lambda>c. cid c = oid) ?g (contacts d)\<rparr>"
    have step: "\<And>xs. reorderLoop e n (i # xs) d = reorderLoop e (Suc n) xs ?d1"
      by (rule reorderLoop_step[OF oid r0])
    have "\<exists>err. reorderLoop e (Suc n) rest ?d1 = (Inl err, snd (reorderLoop e (Suc n) (take k' rest) ?d1))"
    proof (rule Cons.IH)
      show "k' < length rest" using Cons.prems(1) Suc by simp
      show "\<forall>j<k'. castObjectId (rest ! j) \<noteq> None \<and>
               \<not> rejects e (ContactFindByIdAndUpdate (rest ! j) (positionUpdate (Suc n + j)))"
        using Cons.prems(2) Suc by (auto dest: spec[of _ "Suc _"])
      show "castObjectId (rest ! k') = None \<or>
            rejects e (ContactFindByIdAndUpdate (rest ! k') (positionUpdate (Suc n + k')))"
        using Cons.prems(3) Suc by simp
    qed
    then show ?thesis using step Suc by simp
  qed
qed

lemma js_Map_foldl:
  "foldl (\<lambda>m (k, v). m(k \<mapsto> v)) m0 entries = m0 ++ map_of (rev entries)"
  by (induction entries arbitrary: m0) (auto simp: map_add_upd_left fun_eq_iff map_add_def split: option.splits)

lemma js_Map_map_of: "js_Map entries = map_of (rev entries)"
  by (simp add: js_Map_def js_Map_foldl)

lemma map_of_find:
  "map_of (map (\<lambda>u. (k u, v u)) us) x = map_option v (find (\<lambda>u. k u = x) us)"
  by (induction us) auto

lemma find_filter_implied:
  "(\<And>x. Q x \<Longrightarrow> P x) \<Longrightarrow> find Q (filter P xs) = find Q xs"
  by (induction xs) auto

lemma find_None_absent: "find P xs = None \<longleftrightarrow> (\<forall>x \<in> set xs. \<not> P x)"
  by (induction xs) auto

lemma userMap_get:
  assumes "m \<in> S"
  shows "js_Map_get (js_Map (map (\<lambda>u. (user_email u, user_avatarUrl u))
             (filter (\<lambda>u. user_email u \<in> S) us))) m =
         (case find (\<lambda>u. user_email u = m) (rev us) of None \<Rightarrow> Undefined | Some u \<Rightarrow> user_avatarUrl u)"
proof -
  have "js_Map (map (\<lambda>u. (user_email u, user_avatarUrl u)) (filter (\<lambda>u. user_email u \<in> S) us)) m
        = map_of (map (\<lambda>u. (user_email u, user_avatarUrl u)) (filter (\<lambda>u. user_email u \<in> S) (rev us))) m"
    by (simp add: js_Map_map_of rev_map rev_filter)
  also have "\<dots> = map_option user_avatarUrl
                     (find (\<lambda>u. user_email u = m) (filter (\<lambda>u. user_email u \<in> S) (rev us)))"
    by (rule map_of_find)
  also have "\<dots> = map_option user_avatarUrl (find (\<lambda>u. user_email u = m) (rev us))"
  proof -
    have "find (\<lambda>u. user_email u = m) (filter (\<lambda>u. user_email u \<in> S) (rev us))
          = find (\<lambda>u. user_email u = m) (rev us)"
      by (rule find_filter_implied) (use assms in simp)
    then show ?thesis by simp
  qed
  finally show ?thesis
    by (simp add: js_Map_get_def split: option.splits)
qed

lemma enrich_simps:
  "avatarUrl (enrich a c) = a" "email (enrich a c) = email c" "position (enrich a c) = position c"
  "adminContact.truncate (enrich a c) = c"
  by (simp_all add: enrich_def adminContact.extend_def adminContact.truncate_def)

lemma orNull_cases:
  "orNull v \<noteq> Undefined"
  "orNull v = Null \<or> (\<exists>s. s \<noteq> [] \<and> v = Str s \<and> orNull v = Str s)"
  by (cases v; simp)+

lemma reorderContacts_admin:
  assumes "user_level_id u \<in> {2, 3}" and "ids \<noteq> []"
  shows "snd (reorderContacts e (Some u) (IdArray ids) d) = snd (reorderLoop e 0 ids d)"
    and "fst (reorderContacts e (Some u) (IdArray ids) d) =
           (case fst (reorderLoop e 0 ids d) of
              Inl err \<Rightarrow> Next (CustomError ''Failed to reorder contacts'' 500)
            | Inr r \<Rightarrow> Respond 200 (MessageBody ''Contacts reordered successfully''))"
  using assms
  by (auto simp: reorderContacts_def isAdminLevel_def split: prod.splits sum.splits)

lemma reorderLoop_frame_length:
  "length (contacts (snd (reorderLoop e n ids d))) = length (contacts d)"
  using reorderLoop_frame[of e n ids d] by (metis length_map)

lemma reorderLoop_untouched:
  assumes "\<forall>c \<in> set (contacts d). \<forall>i \<in> set ids. castObjectId i \<noteq> Some (cid c)"
  shows "snd (reorderLoop e n ids d) = d"
proof -
  note fr = reorderLoop_frame[of e n ids d]
  have "contacts (snd (reorderLoop e n ids d)) = contacts d"
  proof (rule nth_equalityI)
    show "length (contacts (snd (reorderLoop e n ids d))) = length (contacts d)"
      by (rule reorderLoop_frame_length)
    fix p assume "p < length (contacts (snd (reorderLoop e n ids d)))"
    then have p: "p < length (contacts d)" by (simp add: reorderLoop_frame_length)
    then have "\<forall>i \<in> set ids. castObjectId i \<noteq> Some (cid (contacts d ! p))" using assms by simp
    with fr p show "contacts (snd (reorderLoop e n ids d)) ! p = contacts d ! p" by blast
  qed
  with fr show ?thesis by simp
qed

lemma find_by_key_present:
  "distinct (map k xs) \<Longrightarrow> c \<in> set xs \<Longrightarrow> find (\<lambda>x. k x = k c) xs = Some c"
  by (induction xs) (auto simp: image_iff)

lemma find_by_key_absent: "i \<notin> k ` set xs \<Longrightarrow> find (\<lambda>x. k x = i) xs = None"
  by (induction xs) auto

lemma trim_nonempty: "trim s \<noteq> [] \<Longrightarrow> s \<noteq> []"
  by (auto simp: trim_def)

lemma set_remove1_distinct_key:
  "distinct (map k xs) \<Longrightarrow> set (remove1 c xs) = set xs - {c}"
  by (simp add: distinct_map)

lemmas fixture_defs = env_ok_def admin0_def guest0_def contactA_def contactB_def contactC_def db0_def
  oidA_def oidB_def oidC_def oidD_def

lemmas handler_defs = addContact_def updateContact_def deleteContact_def reorderContacts_def
  isAdminLevel_def

lemmas eval_defs = reorderContacts_def addContact_def updateContact_def deleteContact_def
  isAdminLevel_def AdminContact_findByIdAndUpdate_def AdminContact_findByIdAndDelete_def
  AdminContact_save_def new_AdminContact_def validateContact_def validateUpdate_def
  requiredIfSet_def checkRequired_def castUpdate_def applyUpdate_def positionUpdate_def
  updateOfBody_def falsy_def trim_def isWhiteSpace_def wf_db_def Let_def
  castObjectId_def isHexDigit_def hexValue_def

section \<open>The authorization gate\<close>

text \<open>
  C1. Each of the four mutations of the contact list (\<^verbatim>\<open>addContact\<close>, \<^verbatim>\<open>updateContact\<close>,
  \<^verbatim>\<open>deleteContact\<close>, \<^verbatim>\<open>reorderContacts\<close>), for every payload: without an authenticated user
  it fails with 401, with a user whose role level is not 2 or 3 it fails with 403, and in
  both cases the stored state is the one before the call.
\<close>

theorem admin_mutations_gate:
  "addContact e None b d = (Next (CustomError ''Unauthorized, no user found'' 401), d) \<and>
   updateContact e None i b d = (Next (CustomError ''Unauthorized, no user found'' 401), d) \<and>
   deleteContact e None i d = (Next (CustomError ''Unauthorized, no user found'' 401), d) \<and>
   reorderContacts e None ids d = (Next (CustomError ''Unauthorized, no user found'' 401), d) \<and>
   (user_level_id u \<notin> {2, 3} \<longrightarrow>
      addContact e (Some u) b d = (Next (CustomError ''Forbidden, not an admin'' 403), d) \<and>
      updateContact e (Some u) i b d = (Next (CustomError ''Forbidden, not an admin'' 403), d) \<and>
      deleteContact e (Some u) i d = (Next (CustomError ''Forbidden, not an admin'' 403), d) \<and>
      reorderContacts e (Some u) ids d = (Next (CustomError ''Forbidden, not an admin'' 403), d))"
  by (simp add: handler_defs)

text \<open>The gate at a caller of role level 1, for the four mutations.\<close>

theorem admin_mutations_gate_witness:
  "user_level_id guest0 \<notin> {2, 3} \<and>
   addContact env_ok (Some guest0)
      \<lparr>body_name = Some ''Eve'', body_title = Some ''Tutor'', body_email = Some ''eve@x.fi''\<rparr> db0
     = (Next (CustomError ''Forbidden, not an admin'' 403), db0) \<and>
   updateContact env_ok (Some guest0) ''a1''
      \<lparr>body_name = Some ''Eve'', body_title = Some ''Tutor'', body_email = Some ''eve@x.fi''\<rparr> db0
     = (Next (CustomError ''Forbidden, not an admin'' 403), db0) \<and>
   deleteContact env_ok (Some guest0) ''a1'' db0 = (Next (CustomError ''Forbidden, not an admin'' 403), db0) \<and>
   reorderContacts env_ok (Some guest0) (IdArray [''c3'', ''a1'', ''b2'']) db0
     = (Next (CustomError ''Forbidden, not an admin'' 403), db0)"
proof -
  have g: "user_level_id guest0 \<notin> {2, 3}" by (simp add: guest0_def)
  show ?thesis
    using g admin_mutations_gate[of env_ok
        "\<lparr>body_name = Some ''Eve'', body_title = Some ''Tutor'', body_email = Some ''eve@x.fi''\<rparr>"
        db0 "''a1''" "IdArray [''c3'', ''a1'', ''b2'']" guest0]
    by blast
qed

text \<open>
  C10. Authorization comes before the validation of the body: with a body that
  \<^verbatim>\<open>addContact\<close> refuses (a missing or empty field) and an \<^verbatim>\<open>orderedIds\<close> that
  \<^verbatim>\<open>reorderContacts\<close> refuses (not an array, or empty), a request without user gets 401 and
  one of a non-admin gets 403; only an admin gets the 400 of the validation.
\<close>

theorem authorization_before_validation:
  assumes "falsy (body_name b) \<or> falsy (body_title b) \<or> falsy (body_email b)"
    and "ids = NotAnArray \<or> ids = IdArray []"
  shows "statusOf (fst (addContact e None b d)) = 401 \<and>
         statusOf (fst (reorderContacts e None ids d)) = 401 \<and>
         (user_level_id u \<notin> {2, 3} \<longrightarrow>
            statusOf (fst (addContact e (Some u) b d)) = 403 \<and>
            statusOf (fst (reorderContacts e (Some u) ids d)) = 403) \<and>
         (user_level_id u \<in> {2, 3} \<longrightarrow>
            statusOf (fst (addContact e (Some u) b d)) = 400 \<and>
            statusOf (fst (reorderContacts e (Some u) ids d)) = 400)"
  using assms by (auto simp: handler_defs)

text \<open>The same invalid requests sent by nobody, by a caller of level 1 and by an admin.\<close>

theorem authorization_before_validation_witness:
  "falsy (body_name \<lparr>body_name = None, body_title = Some ''Tutor'', body_email = Some []\<rparr>) \<and>
   user_level_id guest0 \<notin> {2, 3} \<and> user_level_id admin0 \<in> {2, 3} \<and>
   statusOf (fst (addContact env_ok None
      \<lparr>body_name = None, body_title = Some ''Tutor'', body_email = Some []\<rparr> db0)) = 401 \<and>
   statusOf (fst (reorderContacts env_ok None (IdArray []) db0)) = 401 \<and>
   statusOf (fst (addContact env_ok (Some guest0)
      \<lparr>body_name = None, body_title = Some ''Tutor'', body_email = Some []\<rparr> db0)) = 403 \<and>
   statusOf (fst (reorderContacts env_ok (Some guest0) (IdArray []) db0)) = 403 \<and>
   statusOf (fst (addContact env_ok (Some admin0)
      \<lparr>body_name = None, body_title = Some ''Tutor'', body_email = Some []\<rparr> db0)) = 400 \<and>
   statusOf (fst (reorderContacts env_ok (Some admin0) (IdArray []) db0)) = 400"
proof -
  let ?b = "\<lparr>body_name = None, body_title = Some ''Tutor'', body_email = Some []\<rparr>"
  have f: "falsy (body_name ?b)" by (simp add: falsy_def)
  then have h1: "falsy (body_name ?b) \<or> falsy (body_title ?b) \<or> falsy (body_email ?b)" by simp
  have h2: "IdArray [] = NotAnArray \<or> IdArray [] = IdArray []" by simp
  have g: "user_level_id guest0 \<notin> {2, 3}" by (simp add: guest0_def)
  have a: "user_level_id admin0 \<in> {2, 3}" by (simp add: admin0_def)
  show ?thesis
    using f g a authorization_before_validation[OF h1 h2, of env_ok db0 guest0]
      authorization_before_validation[OF h1 h2, of env_ok db0 admin0]
    by blast
qed

section \<open>Admin email lookup\<close>

text \<open>
  C8. \<^verbatim>\<open>getAdminEmails\<close> writes nothing, and when its query is answered it returns exactly
  the emails of the users whose \<^verbatim>\<open>user_level_id\<close> is 2 or 3, in the order of the collection:
  every returned email is the email of such a user, and the email of every such user is
  returned.
\<close>

theorem getAdminEmails_exact:
  "snd (getAdminEmails e d) = d \<and>
   (\<not> rejects e (UserFindByLevel [2, 3]) \<longrightarrow>
      (\<exists>emails. fst (getAdminEmails e d) = Inr emails \<and>
         emails = map user_email (filter (\<lambda>u. user_level_id u = 2 \<or> user_level_id u = 3) (users d)) \<and>
         (\<forall>m \<in> set emails. \<exists>u \<in> set (users d). user_level_id u \<in> {2, 3} \<and> user_email u = m) \<and>
         (\<forall>u \<in> set (users d). user_level_id u \<in> {2, 3} \<longrightarrow> user_email u \<in> set emails)))"
  by (auto simp: getAdminEmails_def userModel_find_by_level_def adminLevels_def intro!: filter_cong)

text \<open>On the sample users (an admin of level 2 and a caller of level 1) only the admin's email is returned.\<close>

theorem getAdminEmails_exact_witness:
  "\<not> rejects env_ok (UserFindByLevel [2, 3]) \<and> getAdminEmails env_ok db0 = (Inr [''ann@x.fi''], db0)"
proof -
  have r: "\<not> rejects env_ok (UserFindByLevel [2, 3])" by (simp add: env_ok_def)
  have u: "map user_email (filter (\<lambda>u. user_level_id u = 2 \<or> user_level_id u = 3) (users db0)) = [''ann@x.fi'']"
    by (simp add: db0_def admin0_def guest0_def)
  from getAdminEmails_exact[of env_ok db0] r u show ?thesis
    by (metis prod.collapse)
qed

section \<open>Profile update\<close>

text \<open>
  C7. \<^verbatim>\<open>updateProfile\<close> never succeeds for a requesting user whose id is not the target
  id: whatever the payload, it fails with 403 and the stored state, the target's profile
  included, is unchanged.
\<close>

theorem updateProfile_owner_only:
  "user_id requestingUser \<noteq> targetId \<Longrightarrow>
   statusOf (fst (updateProfile requestingUser targetId f d)) = 403 \<and>
   snd (updateProfile requestingUser targetId f d) = d"
  by (simp add: updateProfile_def)

text \<open>A caller who tries to rename somebody else's profile.\<close>

theorem updateProfile_owner_only_witness:
  "user_id guest0 \<noteq> ''u1'' \<and>
   statusOf (fst (updateProfile guest0 ''u1''
      \<lparr>new_userName = Some ''root'', new_email = None, new_bio = None, new_preferences = None\<rparr> db0)) = 403 \<and>
   snd (updateProfile guest0 ''u1''
      \<lparr>new_userName = Some ''root'', new_email = None, new_bio = None, new_preferences = None\<rparr> db0) = db0"
proof -
  have h: "user_id guest0 \<noteq> ''u1''" by (simp add: guest0_def)
  from updateProfile_owner_only[OF h] h show ?thesis by blast
qed

section \<open>Listing the contacts\<close>

text \<open>
  C2, as the code has it. \<^verbatim>\<open>getContacts\<close> writes nothing. When its two queries are
  answered it returns the stored contacts sorted by ascending position, each with an
  \<^verbatim>\<open>avatarUrl\<close> that is never \<^verbatim>\<open>undefined\<close>: it is \<^verbatim>\<open>null\<close> when no user has the contact's
  email, and otherwise it is decided by the last user with that email, whose avatarUrl
  is returned when it is a non-empty string and replaced by \<^verbatim>\<open>null\<close> when it is empty,
  \<^verbatim>\<open>null\<close> or missing (\<^verbatim>\<open>userMap.get(contact.email) || null\<close>).
\<close>

theorem getContacts_sorted_enriched:
  "snd (getContacts e d) = d \<and>
   (\<not> rejects e ContactFind \<and>
    \<not> rejects e (UserFindByEmail (map email (sort_key position (contacts d)))) \<longrightarrow>
      (\<exists>cs. fst (getContacts e d) = Respond 200 (ContactsBody cs) \<and>
         sorted (map position cs) \<and>
         map adminContact.truncate cs = sort_key position (contacts d) \<and>
         (\<forall>c \<in> set cs.
            avatarUrl c \<noteq> Undefined \<and>
            ((\<forall>u \<in> set (users d). user_email u \<noteq> email c) \<longrightarrow> avatarUrl c = Null) \<and>
            (avatarUrl c = Null \<or>
             (\<exists>s. s \<noteq> [] \<and> avatarUrl c = Str s \<and>
                  (\<exists>u \<in> set (users d). user_email u = email c \<and> user_avatarUrl u = Str s))) \<and>
            (\<forall>u. find (\<lambda>u. user_email u = email c) (rev (users d)) = Some u \<longrightarrow>
                 avatarUrl c = (case user_avatarUrl u of
                                  Str s \<Rightarrow> if s = [] then Null else Str s
                                | _ \<Rightarrow> Null)))))"
proof (intro conjI impI)
  show "snd (getContacts e d) = d"
    by (simp add: getContacts_def AdminContact_find_sorted_def userModel_find_by_email_def Let_def
        split: sum.splits)
next
  assume ok: "\<not> rejects e ContactFind \<and>
    \<not> rejects e (UserFindByEmail (map email (sort_key position (contacts d))))"
  let ?cs = "sort_key position (contacts d)"
  let ?av = "\<lambda>m. case find (\<lambda>u. user_email u = m) (rev (users d)) of
                    None \<Rightarrow> Undefined | Some u \<Rightarrow> user_avatarUrl u"
  let ?out = "map (\<lambda>c. enrich (orNull (?av (email c))) c) ?cs"
  have res: "fst (getContacts e d) = Respond 200 (ContactsBody ?out)"
    using ok
    by (simp add: getContacts_def AdminContact_find_sorted_def userModel_find_by_email_def Let_def
        userMap_get cong: map_cong)
  have srt: "sorted (map position ?out)"
    by (simp add: o_def enrich_simps)
  have trunc: "map adminContact.truncate ?out = ?cs"
    by (simp add: o_def enrich_simps)
  have each: "\<forall>c \<in> set ?out.
            avatarUrl c \<noteq> Undefined \<and>
            ((\<forall>u \<in> set (users d). user_email u \<noteq> email c) \<longrightarrow> avatarUrl c = Null) \<and>
            (avatarUrl c = Null \<or>
             (\<exists>s. s \<noteq> [] \<and> avatarUrl c = Str s \<and>
                  (\<exists>u \<in> set (users d). user_email u = email c \<and> user_avatarUrl u = Str s))) \<and>
            (\<forall>u. find (\<lambda>u. user_email u = email c) (rev (users d)) = Some u \<longrightarrow>
                 avatarUrl c = (case user_avatarUrl u of
                                  Str s \<Rightarrow> if s = [] then Null else Str s
                                | _ \<Rightarrow> Null))"
  proof
    fix c assume "c \<in> set ?out"
    then obtain c0 where c: "c = enrich (orNull (?av (email c0))) c0" by auto
    have em: "email c = email c0" and av: "avatarUrl c = orNull (?av (email c0))"
      by (simp_all add: c enrich_simps)
    have a1: "avatarUrl c \<noteq> Undefined" by (simp add: av orNull_cases)
    have a2: "(\<forall>u \<in> set (users d). user_email u \<noteq> email c) \<longrightarrow> avatarUrl c = Null"
    proof
      assume "\<forall>u \<in> set (users d). user_email u \<noteq> email c"
      then have "find (\<lambda>u. user_email u = email c0) (rev (users d)) = None"
        by (simp add: find_None_absent em)
      then show "avatarUrl c = Null" by (simp add: av)
    qed
    have a4: "\<forall>u. find (\<lambda>u. user_email u = email c) (rev (users d)) = Some u \<longrightarrow>
                 avatarUrl c = (case user_avatarUrl u of
                                  Str s \<Rightarrow> if s = [] then Null else Str s
                                | _ \<Rightarrow> Null)"
      by (auto simp: av em split: jsval.splits)
    have a3: "avatarUrl c = Null \<or>
             (\<exists>s. s \<noteq> [] \<and> avatarUrl c = Str s \<and>
                  (\<exists>u \<in> set (users d). user_email u = email c \<and> user_avatarUrl u = Str s))"
    proof (cases "find (\<lambda>u. user_email u = email c0) (rev (users d))")
      case None
      then show ?thesis by (simp add: av)
    next
      case (Some u)
      then have "u \<in> set (users d)" "user_email u = email c"
        using find_Some_holds[OF Some] by (simp_all add: em)
      with Some show ?thesis
        using orNull_cases(2)[of "user_avatarUrl u"] by (auto simp: av)
    qed
    from a1 a2 a3 a4 show "avatarUrl c \<noteq> Undefined \<and>
            ((\<forall>u \<in> set (users d). user_email u \<noteq> email c) \<longrightarrow> avatarUrl c = Null) \<and>
            (avatarUrl c = Null \<or>
             (\<exists>s. s \<noteq> [] \<and> avatarUrl c = Str s \<and>
                  (\<exists>u \<in> set (users d). user_email u = email c \<and> user_avatarUrl u = Str s))) \<and>
            (\<forall>u. find (\<lambda>u. user_email u = email c) (rev (users d)) = Some u \<longrightarrow>
                 avatarUrl c = (case user_avatarUrl u of
                                  Str s \<Rightarrow> if s = [] then Null else Str s
                                | _ \<Rightarrow> Null))"
      by blast
  qed
  from res srt trunc each
  show "\<exists>cs. fst (getContacts e d) = Respond 200 (ContactsBody cs) \<and>
         sorted (map position cs) \<and>
         map adminContact.truncate cs = sort_key position (contacts d) \<and>
         (\<forall>c \<in> set cs.
            avatarUrl c \<noteq> Undefined \<and>
            ((\<forall>u \<in> set (users d). user_email u \<noteq> email c) \<longrightarrow> avatarUrl c = Null) \<and>
            (avatarUrl c = Null \<or>
             (\<exists>s. s \<noteq> [] \<and> avatarUrl c = Str s \<and>
                  (\<exists>u \<in> set (users d). user_email u = email c \<and> user_avatarUrl u = Str s))) \<and>
            (\<forall>u. find (\<lambda>u. user_email u = email c) (rev (users d)) = Some u \<longrightarrow>
                 avatarUrl c = (case user_avatarUrl u of
                                  Str s \<Rightarrow> if s = [] then Null else Str s
                                | _ \<Rightarrow> Null)))"
    by blast
qed

text \<open>The sample state: three contacts stored out of order come back by position.\<close>

theorem getContacts_sorted_enriched_witness:
  "\<not> rejects env_ok ContactFind \<and>
   \<not> rejects env_ok (UserFindByEmail (map email (sort_key position (contacts db0)))) \<and>
   snd (getContacts env_ok db0) = db0 \<and>
   (\<exists>cs. fst (getContacts env_ok db0) = Respond 200 (ContactsBody cs) \<and>
      sorted (map position cs) \<and>
      map adminContact.truncate cs = [contactB, contactC, contactA])"
proof -
  have r: "\<not> rejects env_ok ContactFind \<and>
           \<not> rejects env_ok (UserFindByEmail (map email (sort_key position (contacts db0))))"
    by (simp add: env_ok_def)
  have s: "sort_key position (contacts db0) = [contactB, contactC, contactA]"
    by (simp add: db0_def contactA_def contactB_def contactC_def)
  from getContacts_sorted_enriched[of env_ok db0] r s show ?thesis
    by metis
qed

text \<open>
  C2 as stated fails where a user with the contact's email has the empty string as
  avatarUrl: the contact with that email gets \<^verbatim>\<open>null\<close>, not the avatarUrl string of that user.
\<close>

theorem getContacts_empty_avatar_counterexample:
  "guest0 \<in> set (users db0) \<and> user_email guest0 = email contactB \<and>
   user_avatarUrl guest0 = Str [] \<and>
   fst (getContacts env_ok db0) =
     Respond 200 (ContactsBody
       [enrich Null contactB, enrich Null contactC, enrich (Str ''ann.png'') contactA])"
  by (simp add: getContacts_def fixture_defs AdminContact_find_sorted_def
      userModel_find_by_email_def js_Map_def js_Map_get_def)

section \<open>Reordering the contacts\<close>

text \<open>
  C3, as the code has it. For an admin, \<^verbatim>\<open>reorderContacts\<close> refuses an \<^verbatim>\<open>orderedIds\<close> that is
  not an array or is empty with 400 and changes nothing. For a non-empty list in which
  every id is a string of 24 hexadecimal digits and every update is answered by the
  driver, it returns 200, keeps the stored contacts and their order in the collection,
  and has assigned the indices in list order: the contact whose ObjectId the id at index
  \<open>k\<close> is cast to ends with position \<open>k\<close> (when a later id of the list is cast to the same
  ObjectId, the later index is the one that stays, the updates being sequential). The
  collection has unique ids.
\<close>

theorem reorderContacts_assigns_indices:
  assumes "user_level_id u \<in> {2, 3}" and "wf_db d"
  shows "reorderContacts e (Some u) NotAnArray d =
           (Next (CustomError ''Invalid ordered IDs array'' 400), d) \<and>
         reorderContacts e (Some u) (IdArray []) d =
           (Next (CustomError ''Invalid ordered IDs array'' 400), d) \<and>
         (ids \<noteq> [] \<and>
          (\<forall>k < length ids. castObjectId (ids ! k) \<noteq> None \<and>
              \<not> rejects e (ContactFindByIdAndUpdate (ids ! k) (positionUpdate k))) \<longrightarrow>
            fst (reorderContacts e (Some u) (IdArray ids) d) =
              Respond 200 (MessageBody ''Contacts reordered successfully'') \<and>
            map cid (contacts (snd (reorderContacts e (Some u) (IdArray ids) d))) = map cid (contacts d) \<and>
            (\<forall>k < length ids.
               (\<forall>j. k < j \<and> j < length ids \<longrightarrow> castObjectId (ids ! j) \<noteq> castObjectId (ids ! k)) \<longrightarrow>
               (\<forall>c \<in> set (contacts (snd (reorderContacts e (Some u) (IdArray ids) d))).
                   castObjectId (ids ! k) = Some (cid c) \<longrightarrow> position c = int k)))"
proof (intro conjI impI)
  show "reorderContacts e (Some u) NotAnArray d = (Next (CustomError ''Invalid ordered IDs array'' 400), d)"
    using assms(1) by (simp add: reorderContacts_def isAdminLevel_def)
  show "reorderContacts e (Some u) (IdArray []) d = (Next (CustomError ''Invalid ordered IDs array'' 400), d)"
    using assms(1) by (simp add: reorderContacts_def isAdminLevel_def)
next
  assume h: "ids \<noteq> [] \<and>
    (\<forall>k < length ids. castObjectId (ids ! k) \<noteq> None \<and>
        \<not> rejects e (ContactFindByIdAndUpdate (ids ! k) (positionUpdate k)))"
  then have ne: "ids \<noteq> []"
    and ok: "\<forall>k < length ids. castObjectId (ids ! k) \<noteq> None \<and>
               \<not> rejects e (ContactFindByIdAndUpdate (ids ! k) (positionUpdate (0 + k)))"
    by simp_all
  note ra = reorderContacts_admin[OF assms(1) ne, of e d]
  show "fst (reorderContacts e (Some u) (IdArray ids) d) =
          Respond 200 (MessageBody ''Contacts reordered successfully'')"
    using ra(2) reorderLoop_ok[OF ok, of d] by simp
  show "map cid (contacts (snd (reorderContacts e (Some u) (IdArray ids) d))) = map cid (contacts d)"
    using ra(1) reorderLoop_frame[of e 0 ids d] by simp
  show "\<forall>k < length ids.
          (\<forall>j. k < j \<and> j < length ids \<longrightarrow> castObjectId (ids ! j) \<noteq> castObjectId (ids ! k)) \<longrightarrow>
          (\<forall>c \<in> set (contacts (snd (reorderContacts e (Some u) (IdArray ids) d))).
              castObjectId (ids ! k) = Some (cid c) \<longrightarrow> position c = int k)"
  proof (intro allI impI ballI)
    fix k c
    assume "k < length ids"
      "\<forall>j. k < j \<and> j < length ids \<longrightarrow> castObjectId (ids ! j) \<noteq> castObjectId (ids ! k)"
      "c \<in> set (contacts (snd (reorderContacts e (Some u) (IdArray ids) d)))"
      "castObjectId (ids ! k) = Some (cid c)"
    then have "position c = int (0 + k)"
      using reorderLoop_positions[OF ok, of d k c] assms(2) ra(1) by (simp add: wf_db_def)
    then show "position c = int k" by simp
  qed
qed

text \<open>
  \<^verbatim>\<open>reorderContacts([c3.., A1.., b2..])\<close> leaves the three contacts with the positions 0, 1
  and 2; the second id is written in upper case and is cast to the ObjectId of the
  contact stored as \<^verbatim>\<open>a1..\<close>.
\<close>

theorem reorderContacts_assigns_indices_witness:
  "user_level_id admin0 \<in> {2, 3} \<and> wf_db db0 \<and>
   fst (reorderContacts env_ok (Some admin0)
          (IdArray [''c30000000000000000000003'', ''A10000000000000000000001'',
                    ''b20000000000000000000002'']) db0) =
     Respond 200 (MessageBody ''Contacts reordered successfully'') \<and>
   map (\<lambda>c. (cid c, position c))
     (contacts (snd (reorderContacts env_ok (Some admin0)
          (IdArray [''c30000000000000000000003'', ''A10000000000000000000001'',
                    ''b20000000000000000000002'']) db0))) =
     [(oidA, 1), (oidB, 2), (oidC, 0)]"
proof -
  let ?ids = "[''c30000000000000000000003'', ''A10000000000000000000001'', ''b20000000000000000000002'']"
  have a: "user_level_id admin0 \<in> {2, 3}" by (simp add: admin0_def)
  have w: "wf_db db0" by (simp add: wf_db_def fixture_defs hexValue_def)
  have r: "?ids \<noteq> [] \<and>
      (\<forall>k < length ?ids. castObjectId (?ids ! k) \<noteq> None \<and>
         \<not> rejects env_ok (ContactFindByIdAndUpdate (?ids ! k) (positionUpdate k)))"
    by (simp add: env_ok_def castObjectId_def isHexDigit_def All_less_Suc)
  have p: "map (\<lambda>c. (cid c, position c))
     (contacts (snd (reorderContacts env_ok (Some admin0) (IdArray ?ids) db0))) =
     [(oidA, 1), (oidB, 2), (oidC, 0)]"
    by (simp add: eval_defs fixture_defs)
  note th = reorderContacts_assigns_indices[OF a w, of env_ok ?ids]
  note ok = th[THEN conjunct2, THEN conjunct2, THEN mp, OF r, THEN conjunct1]
  show ?thesis
    by (intro conjI) (rule a w ok p)+
qed

text \<open>
  C3 as stated fails for a list with an id that is not 24 hexadecimal digits: the cast
  of \<^verbatim>\<open>not-an-id\<close> throws, whatever the driver does, and the admin's request ends with
  500 instead of 200.
\<close>

theorem reorderContacts_uncastable_id_counterexample:
  "user_level_id admin0 \<in> {2, 3} \<and>
   \<not> rejects env_ok (ContactFindByIdAndUpdate ''not-an-id'' (positionUpdate 0)) \<and>
   reorderContacts env_ok (Some admin0) (IdArray [''not-an-id'']) db0 =
     (Next (CustomError ''Failed to reorder contacts'' 500), db0)"
  by (simp add: eval_defs fixture_defs)

text \<open>
  C4. \<^verbatim>\<open>reorderContacts\<close> is not atomic. When the update at index \<open>k\<close> is the first one
  that fails (its id cannot be cast, or the driver rejects the call), the handler reports
  500, and the state it leaves is the one after the updates of the indices below \<open>k\<close>:
  the contacts these ids are cast to have their new positions, and every contact that
  none of these ids is cast to, those of the ids from \<open>k\<close> on included, is as it was.
  Nothing is rolled back.
\<close>

theorem reorderContacts_partial_failure:
  assumes "user_level_id u \<in> {2, 3}" and "wf_db d"
    and "k < length ids"
    and "\<forall>j < k. castObjectId (ids ! j) \<noteq> None \<and>
           \<not> rejects e (ContactFindByIdAndUpdate (ids ! j) (positionUpdate j))"
    and "castObjectId (ids ! k) = None \<or>
         rejects e (ContactFindByIdAndUpdate (ids ! k) (positionUpdate k))"
  shows "fst (reorderContacts e (Some u) (IdArray ids) d) =
           Next (CustomError ''Failed to reorder contacts'' 500) \<and>
         users (snd (reorderContacts e (Some u) (IdArray ids) d)) = users d \<and>
         map cid (contacts (snd (reorderContacts e (Some u) (IdArray ids) d))) = map cid (contacts d) \<and>
         (\<forall>i < k. (\<forall>j. i < j \<and> j < k \<longrightarrow> castObjectId (ids ! j) \<noteq> castObjectId (ids ! i)) \<longrightarrow>
            (\<forall>c \<in> set (contacts (snd (reorderContacts e (Some u) (IdArray ids) d))).
                castObjectId (ids ! i) = Some (cid c) \<longrightarrow> position c = int i)) \<and>
         (\<forall>p < length (contacts d).
            (\<forall>i \<in> set (take k ids). castObjectId i \<noteq> Some (cid (contacts d ! p))) \<longrightarrow>
            contacts (snd (reorderContacts e (Some u) (IdArray ids) d)) ! p = contacts d ! p)"
proof -
  from assms(3) have ne: "ids \<noteq> []" by auto
  note ra = reorderContacts_admin[OF assms(1) ne, of e d]
  have pre: "\<forall>j < k. castObjectId (ids ! j) \<noteq> None \<and>
               \<not> rejects e (ContactFindByIdAndUpdate (ids ! j) (positionUpdate (0 + j)))"
    using assms(4) by simp
  have rej: "castObjectId (ids ! k) = None \<or>
             rejects e (ContactFindByIdAndUpdate (ids ! k) (positionUpdate (0 + k)))"
    using assms(5) by simp
  from reorderLoop_split[OF assms(3) pre rej, of d]
  obtain err where sp: "reorderLoop e 0 ids d = (Inl err, snd (reorderLoop e 0 (take k ids) d))"
    by blast
  let ?d' = "snd (reorderContacts e (Some u) (IdArray ids) d)"
  have d': "?d' = snd (reorderLoop e 0 (take k ids) d)" using ra(1) sp by simp
  have st: "fst (reorderContacts e (Some u) (IdArray ids) d) =
           Next (CustomError ''Failed to reorder contacts'' 500)"
    using ra(2) sp by simp
  note fr = reorderLoop_frame[of e 0 "take k ids" d]
  have ok: "\<forall>j < length (take k ids). castObjectId (take k ids ! j) \<noteq> None \<and>
      \<not> rejects e (ContactFindByIdAndUpdate (take k ids ! j) (positionUpdate (0 + j)))"
    using assms(3,4) by simp
  have pos: "\<forall>i < k. (\<forall>j. i < j \<and> j < k \<longrightarrow> castObjectId (ids ! j) \<noteq> castObjectId (ids ! i)) \<longrightarrow>
            (\<forall>c \<in> set (contacts ?d'). castObjectId (ids ! i) = Some (cid c) \<longrightarrow> position c = int i)"
  proof (intro allI impI ballI)
    fix i c
    assume i: "i < k"
      and last: "\<forall>j. i < j \<and> j < k \<longrightarrow> castObjectId (ids ! j) \<noteq> castObjectId (ids ! i)"
      and c: "c \<in> set (contacts ?d')" and ci: "castObjectId (ids ! i) = Some (cid c)"
    have "position c = int (0 + i)"
    proof (rule reorderLoop_positions[OF ok])
      show "distinct (map cid (contacts d))" using assms(2) by (simp add: wf_db_def)
      show "i < length (take k ids)" using i assms(3) by simp
      show "\<forall>j. i < j \<and> j < length (take k ids) \<longrightarrow>
              castObjectId (take k ids ! j) \<noteq> castObjectId (take k ids ! i)"
        using last i assms(3) by simp
      show "c \<in> set (contacts (snd (reorderLoop e 0 (take k ids) d)))" using c d' by simp
      show "castObjectId (take k ids ! i) = Some (cid c)" using ci i by simp
    qed
    then show "position c = int i" by simp
  qed
  from st fr pos show ?thesis unfolding d' by blast
qed

text \<open>
  The second of three ids cannot be cast: 500; the first id (in upper case) has moved its
  contact to position 0, and the contact of the third id keeps its old position 2.
\<close>

theorem reorderContacts_partial_failure_witness:
  "user_level_id admin0 \<in> {2, 3} \<and> wf_db db0 \<and>
   castObjectId ''C30000000000000000000003'' = Some oidC \<and>
   castObjectId ''not-an-id'' = None \<and>
   fst (reorderContacts env_ok (Some admin0)
          (IdArray [''C30000000000000000000003'', ''not-an-id'', ''a10000000000000000000001'']) db0) =
     Next (CustomError ''Failed to reorder contacts'' 500) \<and>
   map (\<lambda>c. (cid c, position c))
     (contacts (snd (reorderContacts env_ok (Some admin0)
          (IdArray [''C30000000000000000000003'', ''not-an-id'', ''a10000000000000000000001'']) db0))) =
     [(oidA, 2), (oidB, 0), (oidC, 0)] \<and>
   snd (reorderContacts env_ok (Some admin0)
          (IdArray [''C30000000000000000000003'', ''not-an-id'', ''a10000000000000000000001'']) db0) \<noteq> db0"
proof -
  let ?ids = "[''C30000000000000000000003'', ''not-an-id'', ''a10000000000000000000001'']"
  have a: "user_level_id admin0 \<in> {2, 3}" by (simp add: admin0_def)
  have w: "wf_db db0" by (simp add: wf_db_def fixture_defs hexValue_def)
  have k: "(1::nat) < length ?ids" by simp
  have c0: "castObjectId ''C30000000000000000000003'' = Some oidC"
    by (simp add: castObjectId_def isHexDigit_def hexValue_def oidC_def)
  have c1: "castObjectId ''not-an-id'' = None" by (simp add: castObjectId_def)
  have pre: "\<forall>j < (1::nat). castObjectId (?ids ! j) \<noteq> None \<and>
      \<not> rejects env_ok (ContactFindByIdAndUpdate (?ids ! j) (positionUpdate j))"
    using c0 by (simp add: env_ok_def)
  have rej: "castObjectId (?ids ! 1) = None \<or>
      rejects env_ok (ContactFindByIdAndUpdate (?ids ! 1) (positionUpdate 1))"
    using c1 by simp
  have p: "map (\<lambda>c. (cid c, position c))
     (contacts (snd (reorderContacts env_ok (Some admin0) (IdArray ?ids) db0))) =
     [(oidA, 2), (oidB, 0), (oidC, 0)]"
    by (simp add: eval_defs fixture_defs)
  have n: "snd (reorderContacts env_ok (Some admin0) (IdArray ?ids) db0) \<noteq> db0"
  proof
    assume "snd (reorderContacts env_ok (Some admin0) (IdArray ?ids) db0) = db0"
    with p show False by (simp add: fixture_defs)
  qed
  note th = reorderContacts_partial_failure[OF a w k pre rej, THEN conjunct1]
  show ?thesis
    by (intro conjI) (rule a w c0 c1 th p n)+
qed

text \<open>
  C9, as the code has it. For an admin and a non-empty list, the answer is never 404, and
  the contacts that no id of the list is cast to are untouched; when no id of the list
  is cast to the ObjectId of a stored contact, the whole state is unchanged. When every
  id of the list is a string of 24 hexadecimal digits and the driver answers every
  update, an id that matches no stored contact is skipped without an error and the
  answer is 200.
\<close>

theorem reorderContacts_skips_unknown_ids:
  assumes "user_level_id u \<in> {2, 3}" and "ids \<noteq> []"
  shows "statusOf (fst (reorderContacts e (Some u) (IdArray ids) d)) \<noteq> 404 \<and>
         ((\<forall>k < length ids. castObjectId (ids ! k) \<noteq> None \<and>
              \<not> rejects e (ContactFindByIdAndUpdate (ids ! k) (positionUpdate k))) \<longrightarrow>
            fst (reorderContacts e (Some u) (IdArray ids) d) =
              Respond 200 (MessageBody ''Contacts reordered successfully'')) \<and>
         length (contacts (snd (reorderContacts e (Some u) (IdArray ids) d))) = length (contacts d) \<and>
         (\<forall>p < length (contacts d).
            (\<forall>i \<in> set ids. castObjectId i \<noteq> Some (cid (contacts d ! p))) \<longrightarrow>
            contacts (snd (reorderContacts e (Some u) (IdArray ids) d)) ! p = contacts d ! p) \<and>
         ((\<forall>c \<in> set (contacts d). \<forall>i \<in> set ids. castObjectId i \<noteq> Some (cid c)) \<longrightarrow>
            snd (reorderContacts e (Some u) (IdArray ids) d) = d)"
proof -
  note ra = reorderContacts_admin[OF assms, of e d]
  have s: "statusOf (fst (reorderContacts e (Some u) (IdArray ids) d)) \<noteq> 404"
    using ra(2) by (simp split: sum.splits)
  have ok: "(\<forall>k < length ids. castObjectId (ids ! k) \<noteq> None \<and>
              \<not> rejects e (ContactFindByIdAndUpdate (ids ! k) (positionUpdate k))) \<longrightarrow>
            fst (reorderContacts e (Some u) (IdArray ids) d) =
              Respond 200 (MessageBody ''Contacts reordered successfully'')"
  proof
    assume "\<forall>k < length ids. castObjectId (ids ! k) \<noteq> None \<and>
              \<not> rejects e (ContactFindByIdAndUpdate (ids ! k) (positionUpdate k))"
    then have "\<forall>k < length ids. castObjectId (ids ! k) \<noteq> None \<and>
                \<not> rejects e (ContactFindByIdAndUpdate (ids ! k) (positionUpdate (0 + k)))"
      by simp
    from reorderLoop_ok[OF this, of d] ra(2)
    show "fst (reorderContacts e (Some u) (IdArray ids) d) =
              Respond 200 (MessageBody ''Contacts reordered successfully'')" by simp
  qed
  from s ok reorderLoop_frame[of e 0 ids d] reorderLoop_frame_length[of e 0 ids d]
    reorderLoop_untouched[of d ids e 0]
  show ?thesis unfolding ra(1) by blast
qed

text \<open>
  A list of two well-formed ids that no contact has gives 200 and the same state; such
  an id followed by the id of the contact \<^verbatim>\<open>b2..\<close> gives 200 and moves that contact only
  (to its index 1).
\<close>

theorem reorderContacts_skips_unknown_ids_witness:
  "user_level_id admin0 \<in> {2, 3} \<and>
   reorderContacts env_ok (Some admin0)
      (IdArray [''ffffffffffffffffffffffff'', ''eeeeeeeeeeeeeeeeeeeeeeee'']) db0 =
     (Respond 200 (MessageBody ''Contacts reordered successfully''), db0) \<and>
   fst (reorderContacts env_ok (Some admin0)
      (IdArray [''ffffffffffffffffffffffff'', ''b20000000000000000000002'']) db0) =
     Respond 200 (MessageBody ''Contacts reordered successfully'') \<and>
   map (\<lambda>c. (cid c, position c))
     (contacts (snd (reorderContacts env_ok (Some admin0)
        (IdArray [''ffffffffffffffffffffffff'', ''b20000000000000000000002'']) db0))) =
     [(oidA, 2), (oidB, 1), (oidC, 1)]"
proof -
  let ?i1 = "[''ffffffffffffffffffffffff'', ''eeeeeeeeeeeeeeeeeeeeeeee'']"
  let ?i2 = "[''ffffffffffffffffffffffff'', ''b20000000000000000000002'']"
  have a: "user_level_id admin0 \<in> {2, 3}" by (simp add: admin0_def)
  have ne: "?i1 \<noteq> []" "?i2 \<noteq> []" by simp_all
  have r1: "\<forall>k < length ?i1. castObjectId (?i1 ! k) \<noteq> None \<and>
      \<not> rejects env_ok (ContactFindByIdAndUpdate (?i1 ! k) (positionUpdate k))"
    by (simp add: env_ok_def castObjectId_def isHexDigit_def All_less_Suc)
  have r2: "\<forall>k < length ?i2. castObjectId (?i2 ! k) \<noteq> None \<and>
      \<not> rejects env_ok (ContactFindByIdAndUpdate (?i2 ! k) (positionUpdate k))"
    by (simp add: env_ok_def castObjectId_def isHexDigit_def All_less_Suc)
  have u: "\<forall>c \<in> set (contacts db0). \<forall>i \<in> set ?i1. castObjectId i \<noteq> Some (cid c)"
    by (simp add: fixture_defs castObjectId_def isHexDigit_def hexValue_def)
  have p: "map (\<lambda>c. (cid c, position c))
     (contacts (snd (reorderContacts env_ok (Some admin0) (IdArray ?i2) db0))) =
     [(oidA, 2), (oidB, 1), (oidC, 1)]"
    by (simp add: eval_defs fixture_defs)
  note th1 = reorderContacts_skips_unknown_ids[OF a ne(1), of env_ok db0]
  note th2 = reorderContacts_skips_unknown_ids[OF a ne(2), of env_ok db0]
  note f1 = th1[THEN conjunct2, THEN conjunct1, THEN mp, OF r1]
  note s1 = th1[THEN conjunct2, THEN conjunct2, THEN conjunct2, THEN conjunct2, THEN mp, OF u]
  note f2 = th2[THEN conjunct2, THEN conjunct1, THEN mp, OF r2]
  have e1: "reorderContacts env_ok (Some admin0) (IdArray ?i1) db0 =
     (Respond 200 (MessageBody ''Contacts reordered successfully''), db0)"
    using f1 s1 by (simp add: prod_eq_iff)
  show ?thesis
    by (intro conjI) (rule a e1 f2 p)+
qed

text \<open>
  C9 as stated fails for ids that match no stored contact because they are not ObjectIds
  at all: the first one is not skipped, its cast throws and the answer is 500, not 200.
\<close>

theorem reorderContacts_malformed_unknown_id_counterexample:
  "user_level_id admin0 \<in> {2, 3} \<and>
   castObjectId ''ffff'' = None \<and>
   \<not> rejects env_ok (ContactFindByIdAndUpdate ''ffff'' (positionUpdate 0)) \<and>
   fst (reorderContacts env_ok (Some admin0) (IdArray [''ffff'', ''eeee'']) db0) =
     Next (CustomError ''Failed to reorder contacts'' 500) \<and>
   fst (reorderContacts env_ok (Some admin0) (IdArray [''ffff'', ''eeee'']) db0) \<noteq>
     Respond 200 (MessageBody ''Contacts reordered successfully'')"
  by (simp add: eval_defs fixture_defs)

section \<open>Adding, updating and deleting a contact\<close>

text \<open>
  C5, as the code has it. For an admin, \<^verbatim>\<open>addContact\<close> fails with 400 and persists
  nothing when one of name, title and email is missing or the empty string. When each of
  the three holds a character that is not white space, the driver accepts the save and
  the generated id is new, it appends one contact to the collection, with the three
  values trimmed, position 0, no user reference and the time of the save, and returns
  201 with that contact.
\<close>

theorem addContact_validated:
  assumes "user_level_id u \<in> {2, 3}"
  shows "(body_name b = None \<or> body_name b = Some [] \<or> body_title b = None \<or> body_title b = Some [] \<or>
          body_email b = None \<or> body_email b = Some [] \<longrightarrow>
            addContact e (Some u) b d = (Next (CustomError ''All fields are required'' 400), d)) \<and>
         (\<forall>n t m. body_name b = Some n \<and> body_title b = Some t \<and> body_email b = Some m \<and>
                  trim n \<noteq> [] \<and> trim t \<noteq> [] \<and> trim m \<noteq> [] \<and>
                  \<not> rejects e (ContactSave (new_AdminContact e n t m)) \<and>
                  newObjectId e \<notin> cid ` set (contacts d) \<longrightarrow>
            (let now = clock e (ContactSave (new_AdminContact e n t m));
                 c = \<lparr>cid = newObjectId e, name = trim n, title = trim t, email = trim m,
                      position = 0, userRef = None, createdAt = now, updatedAt = now\<rparr>
             in addContact e (Some u) b d =
                  (Respond 201 (MessageContactBody ''Admin contact added successfully'' c),
                   d\<lparr>contacts := contacts d @ [c]\<rparr>)))"
proof (intro conjI impI allI)
  assume "body_name b = None \<or> body_name b = Some [] \<or> body_title b = None \<or> body_title b = Some [] \<or>
          body_email b = None \<or> body_email b = Some []"
  then have "falsy (body_name b) \<or> falsy (body_title b) \<or> falsy (body_email b)"
    by (auto simp: falsy_def)
  then show "addContact e (Some u) b d = (Next (CustomError ''All fields are required'' 400), d)"
    using assms by (simp add: addContact_def isAdminLevel_def)
next
  fix n t m
  assume h: "body_name b = Some n \<and> body_title b = Some t \<and> body_email b = Some m \<and>
                  trim n \<noteq> [] \<and> trim t \<noteq> [] \<and> trim m \<noteq> [] \<and>
                  \<not> rejects e (ContactSave (new_AdminContact e n t m)) \<and>
                  newObjectId e \<notin> cid ` set (contacts d)"
  then have truthy: "\<not> falsy (body_name b)" "\<not> falsy (body_title b)" "\<not> falsy (body_email b)"
    by (auto simp: falsy_def dest: trim_nonempty)
  have valid: "validateContact (new_AdminContact e n t m)"
    using h by (simp add: validateContact_def checkRequired_def new_AdminContact_def)
  have fresh: "cid (new_AdminContact e n t m) \<notin> set (map cid (contacts d))"
    using h by (simp add: new_AdminContact_def)
  have save: "AdminContact_save e (new_AdminContact e n t m) d =
      (Inr ((new_AdminContact e n t m)\<lparr>createdAt := clock e (ContactSave (new_AdminContact e n t m)),
                                       updatedAt := clock e (ContactSave (new_AdminContact e n t m))\<rparr>),
       d\<lparr>contacts := contacts d @
           [(new_AdminContact e n t m)\<lparr>createdAt := clock e (ContactSave (new_AdminContact e n t m)),
                                       updatedAt := clock e (ContactSave (new_AdminContact e n t m))\<rparr>]\<rparr>)"
    using valid fresh h by (simp add: AdminContact_save_def Let_def)
  have rec: "(new_AdminContact e n t m)\<lparr>createdAt := clock e (ContactSave (new_AdminContact e n t m)),
                                       updatedAt := clock e (ContactSave (new_AdminContact e n t m))\<rparr>
       = \<lparr>cid = newObjectId e, name = trim n, title = trim t, email = trim m,
                      position = 0, userRef = None,
          createdAt = clock e (ContactSave (new_AdminContact e n t m)),
          updatedAt = clock e (ContactSave (new_AdminContact e n t m))\<rparr>"
    by (simp add: new_AdminContact_def)
  show "let now = clock e (ContactSave (new_AdminContact e n t m));
                 c = \<lparr>cid = newObjectId e, name = trim n, title = trim t, email = trim m,
                      position = 0, userRef = None, createdAt = now, updatedAt = now\<rparr>
             in addContact e (Some u) b d =
                  (Respond 201 (MessageContactBody ''Admin contact added successfully'' c),
                   d\<lparr>contacts := contacts d @ [c]\<rparr>)"
    unfolding Let_def rec[symmetric]
    using assms truthy h save by (simp add: addContact_def isAdminLevel_def)
qed

text \<open>An admin's request without a name, and one whose name is padded with spaces.\<close>

theorem addContact_validated_witness:
  "user_level_id admin0 \<in> {2, 3} \<and>
   addContact env_ok (Some admin0)
      \<lparr>body_name = None, body_title = Some ''Tutor'', body_email = Some ''eve@x.fi''\<rparr> db0 =
     (Next (CustomError ''All fields are required'' 400), db0) \<and>
   trim '' Eve '' = ''Eve'' \<and>
   addContact env_ok (Some admin0)
      \<lparr>body_name = Some '' Eve '', body_title = Some ''Tutor'', body_email = Some ''eve@x.fi''\<rparr> db0 =
     (Respond 201 (MessageContactBody ''Admin contact added successfully''
        \<lparr>cid = oidD, name = ''Eve'', title = ''Tutor'', email = ''eve@x.fi'', position = 0,
         userRef = None, createdAt = 7, updatedAt = 7\<rparr>),
      db0\<lparr>contacts := contacts db0 @
        [\<lparr>cid = oidD, name = ''Eve'', title = ''Tutor'', email = ''eve@x.fi'', position = 0,
          userRef = None, createdAt = 7, updatedAt = 7\<rparr>]\<rparr>)"
proof -
  let ?b0 = "\<lparr>body_name = None, body_title = Some ''Tutor'', body_email = Some ''eve@x.fi''\<rparr>"
  let ?b1 = "\<lparr>body_name = Some '' Eve '', body_title = Some ''Tutor'', body_email = Some ''eve@x.fi''\<rparr>"
  have a: "user_level_id admin0 \<in> {2, 3}" by (simp add: admin0_def)
  have m: "body_name ?b0 = None \<or> body_name ?b0 = Some [] \<or> body_title ?b0 = None \<or>
           body_title ?b0 = Some [] \<or> body_email ?b0 = None \<or> body_email ?b0 = Some []"
    by simp
  note e400 = addContact_validated[OF a, of ?b0 env_ok db0, THEN conjunct1, THEN mp, OF m]
  have t: "trim '' Eve '' = ''Eve''" "trim ''Tutor'' = ''Tutor''" "trim ''eve@x.fi'' = ''eve@x.fi''"
    by (simp_all add: trim_def isWhiteSpace_def)
  have h: "body_name ?b1 = Some '' Eve '' \<and> body_title ?b1 = Some ''Tutor'' \<and>
           body_email ?b1 = Some ''eve@x.fi'' \<and>
           trim '' Eve '' \<noteq> [] \<and> trim ''Tutor'' \<noteq> [] \<and> trim ''eve@x.fi'' \<noteq> [] \<and>
           \<not> rejects env_ok (ContactSave (new_AdminContact env_ok '' Eve '' ''Tutor'' ''eve@x.fi'')) \<and>
           newObjectId env_ok \<notin> cid ` set (contacts db0)"
    by (simp add: t) (simp add: fixture_defs hexValue_def)
  note th = addContact_validated[OF a, of ?b1 env_ok db0, THEN conjunct2, THEN spec, THEN spec,
      THEN spec, THEN mp, OF h]
  have e201: "addContact env_ok (Some admin0) ?b1 db0 =
     (Respond 201 (MessageContactBody ''Admin contact added successfully''
        \<lparr>cid = oidD, name = ''Eve'', title = ''Tutor'', email = ''eve@x.fi'', position = 0,
         userRef = None, createdAt = 7, updatedAt = 7\<rparr>),
      db0\<lparr>contacts := contacts db0 @
        [\<lparr>cid = oidD, name = ''Eve'', title = ''Tutor'', email = ''eve@x.fi'', position = 0,
          userRef = None, createdAt = 7, updatedAt = 7\<rparr>]\<rparr>)"
    using th by (simp add: Let_def t) (simp add: env_ok_def)
  show ?thesis
    by (intro conjI) (rule a e400 t(1) e201)+
qed

text \<open>
  C5 as stated fails for a field that is present but holds white space only: the check
  \<^verbatim>\<open>!name\<close> lets it pass, the schema trims it to the empty string, the \<^verbatim>\<open>required\<close>
  validator makes \<^verbatim>\<open>save()\<close> throw, and the answer is 500, not 201.
\<close>

theorem addContact_blank_name_counterexample:
  "user_level_id admin0 \<in> {2, 3} \<and>
   \<not> rejects env_ok (ContactSave (new_AdminContact env_ok '' '' ''Tutor'' ''eve@x.fi'')) \<and>
   addContact env_ok (Some admin0)
      \<lparr>body_name = Some '' '', body_title = Some ''Tutor'', body_email = Some ''eve@x.fi''\<rparr> db0 =
     (Next (CustomError ''Failed to add contact'' 500), db0)"
  by (simp add: eval_defs fixture_defs)

text \<open>
  C6, as the code has it, for an admin and a collection with unique ids. The id of the
  request is cast to an ObjectId, which a string of 24 hexadecimal digits, in upper or
  lower case, allows. For such an id, when the driver answers the call and no field of
  the body is blank (\<^verbatim>\<open>runValidators: true\<close> applies the \<^verbatim>\<open>required\<close> validators to the
  trimmed values that are set), \<^verbatim>\<open>updateContact\<close> fails with 404 and changes nothing when
  no contact has that ObjectId, and otherwise replaces that contact, and no other, by
  its update (the fields of the body trimmed, the others kept) and returns it with 200.
  For such an id, when the driver answers the call, \<^verbatim>\<open>deleteContact\<close> fails with 404 and
  changes nothing when no contact has that ObjectId, and otherwise removes exactly that
  contact and returns success.
\<close>

theorem update_delete_by_id:
  assumes "user_level_id u \<in> {2, 3}" and "wf_db d"
  shows "(castObjectId i = Some oid \<and>
          \<not> rejects e (ContactFindByIdAndUpdate i (updateOfBody b)) \<and>
          (\<forall>s. Some s \<in> {body_name b, body_title b, body_email b} \<longrightarrow> trim s \<noteq> []) \<longrightarrow>
            (oid \<notin> cid ` set (contacts d) \<longrightarrow>
               updateContact e (Some u) i b d = (Next (CustomError ''Contact not found'' 404), d)) \<and>
            (\<forall>c \<in> set (contacts d). cid c = oid \<longrightarrow>
               (let c' = c\<lparr>name := (case body_name b of None \<Rightarrow> name c | Some s \<Rightarrow> trim s),
                           title := (case body_title b of None \<Rightarrow> title c | Some s \<Rightarrow> trim s),
                           email := (case body_email b of None \<Rightarrow> email c | Some s \<Rightarrow> trim s),
                           updatedAt := clock e (ContactFindByIdAndUpdate i (updateOfBody b))\<rparr>
                in updateContact e (Some u) i b d =
                     (Respond 200 (MessageContactBody ''Contact updated successfully'' c'),
                      d\<lparr>contacts := map (\<lambda>x. if cid x = oid then c' else x) (contacts d)\<rparr>)))) \<and>
         (castObjectId i = Some oid \<and> \<not> rejects e (ContactFindByIdAndDelete i) \<longrightarrow>
            (oid \<notin> cid ` set (contacts d) \<longrightarrow>
               deleteContact e (Some u) i d = (Next (CustomError ''Contact not found'' 404), d)) \<and>
            (\<forall>c \<in> set (contacts d). cid c = oid \<longrightarrow>
               deleteContact e (Some u) i d =
                 (Respond 200 (SuccessMessageBody True ''Contact deleted successfully''),
                  d\<lparr>contacts := remove1 c (contacts d)\<rparr>) \<and>
               set (remove1 c (contacts d)) = set (contacts d) - {c} \<and>
               length (remove1 c (contacts d)) + 1 = length (contacts d)))"
proof (intro conjI impI ballI)
  assume h: "castObjectId i = Some oid \<and>
          \<not> rejects e (ContactFindByIdAndUpdate i (updateOfBody b)) \<and>
          (\<forall>s. Some s \<in> {body_name b, body_title b, body_email b} \<longrightarrow> trim s \<noteq> [])"
  then have cast: "castObjectId i = Some oid"
    and nr: "\<not> rejects e (ContactFindByIdAndUpdate i (updateOfBody b))" by simp_all
  from h have valid: "True \<longrightarrow> validateUpdate (castUpdate (updateOfBody b))"
    by (auto simp: validateUpdate_def castUpdate_def updateOfBody_def requiredIfSet_def
        checkRequired_def split: option.splits)
  note upd = findByIdAndUpdate_ok[OF cast nr valid, of d]
  {
    assume "oid \<notin> cid ` set (contacts d)"
    then have none: "find (\<lambda>c. cid c = oid) (contacts d) = None" by (rule find_by_key_absent)
    then have same: "update_first (\<lambda>c. cid c = oid)
        (applyUpdate (castUpdate (updateOfBody b)) (clock e (ContactFindByIdAndUpdate i (updateOfBody b))))
        (contacts d) = contacts d"
      by (rule update_first_none)
    show "updateContact e (Some u) i b d = (Next (CustomError ''Contact not found'' 404), d)"
      using assms(1) upd none same by (simp add: updateContact_def isAdminLevel_def)
  }
  {
    fix c assume c: "c \<in> set (contacts d)" and ci: "cid c = oid"
    have dist: "distinct (map cid (contacts d))" using assms(2) by (simp add: wf_db_def)
    have found: "find (\<lambda>x. cid x = oid) (contacts d) = Some c"
      using find_by_key_present[OF dist c] ci by simp
    let ?g = "applyUpdate (castUpdate (updateOfBody b)) (clock e (ContactFindByIdAndUpdate i (updateOfBody b)))"
    let ?c' = "c\<lparr>name := (case body_name b of None \<Rightarrow> name c | Some s \<Rightarrow> trim s),
                 title := (case body_title b of None \<Rightarrow> title c | Some s \<Rightarrow> trim s),
                 email := (case body_email b of None \<Rightarrow> email c | Some s \<Rightarrow> trim s),
                 updatedAt := clock e (ContactFindByIdAndUpdate i (updateOfBody b))\<rparr>"
    have g: "?g c = ?c'"
      by (simp add: applyUpdate_def castUpdate_def updateOfBody_def split: option.splits)
    have lst: "update_first (\<lambda>x. cid x = oid) ?g (contacts d) =
               map (\<lambda>x. if cid x = oid then ?c' else x) (contacts d)"
    proof -
      have "update_first (\<lambda>x. cid x = oid) ?g (contacts d) =
            update_first (\<lambda>x. cid x = oid) (\<lambda>x. ?g c) (contacts d)"
        using update_first_const[OF found, of ?g] by simp
      also have "\<dots> = map (\<lambda>x. if cid x = oid then ?g c else x) (contacts d)"
        by (rule update_first_distinct[OF dist])
      finally show ?thesis by (simp only: g)
    qed
    have "updateContact e (Some u) i b d =
            (Respond 200 (MessageContactBody ''Contact updated successfully'' (?g c)),
             d\<lparr>contacts := update_first (\<lambda>x. cid x = oid) ?g (contacts d)\<rparr>)"
      using assms(1) upd found by (simp add: updateContact_def isAdminLevel_def)
    then show "let c' = ?c' in updateContact e (Some u) i b d =
                     (Respond 200 (MessageContactBody ''Contact updated successfully'' c'),
                      d\<lparr>contacts := map (\<lambda>x. if cid x = oid then c' else x) (contacts d)\<rparr>)"
      unfolding Let_def by (simp only: g lst)
  }
next
  assume h: "castObjectId i = Some oid \<and> \<not> rejects e (ContactFindByIdAndDelete i)"
  {
    assume "oid \<notin> cid ` set (contacts d)"
    then have "find (\<lambda>c. cid c = oid) (contacts d) = None" by (rule find_by_key_absent)
    then show "deleteContact e (Some u) i d = (Next (CustomError ''Contact not found'' 404), d)"
      using assms(1) h by (simp add: deleteContact_def isAdminLevel_def AdminContact_findByIdAndDelete_def)
  }
  {
    fix c assume c: "c \<in> set (contacts d)" and ci: "cid c = oid"
    have dist: "distinct (map cid (contacts d))" using assms(2) by (simp add: wf_db_def)
    have found: "find (\<lambda>x. cid x = oid) (contacts d) = Some c"
      using find_by_key_present[OF dist c] ci by simp
    show "deleteContact e (Some u) i d =
                 (Respond 200 (SuccessMessageBody True ''Contact deleted successfully''),
                  d\<lparr>contacts := remove1 c (contacts d)\<rparr>)"
      using assms(1) h found remove_first_remove1[OF found]
      by (simp add: deleteContact_def isAdminLevel_def AdminContact_findByIdAndDelete_def)
    show "set (remove1 c (contacts d)) = set (contacts d) - {c}"
      by (rule set_remove1_distinct_key[OF dist])
    show "length (remove1 c (contacts d)) + 1 = length (contacts d)"
    proof -
      have "length (contacts d) \<noteq> 0" using c by auto
      then show ?thesis using c by (simp add: length_remove1)
    qed
  }
qed

text \<open>
  A well-formed id that no contact has, and the ids of two stored contacts written in
  upper case, for an update of the title and for a deletion.
\<close>

theorem update_delete_by_id_witness:
  "user_level_id admin0 \<in> {2, 3} \<and> wf_db db0 \<and>
   castObjectId ''A10000000000000000000001'' = Some oidA \<and>
   castObjectId ''B20000000000000000000002'' = Some oidB \<and>
   updateContact env_ok (Some admin0) ''ffffffffffffffffffffffff''
      \<lparr>body_name = None, body_title = Some '' Rector '', body_email = None\<rparr> db0 =
     (Next (CustomError ''Contact not found'' 404), db0) \<and>
   updateContact env_ok (Some admin0) ''A10000000000000000000001''
      \<lparr>body_name = None, body_title = Some '' Rector '', body_email = None\<rparr> db0 =
     (Respond 200 (MessageContactBody ''Contact updated successfully''
        (contactA\<lparr>title := ''Rector'', updatedAt := 7\<rparr>)),
      db0\<lparr>contacts := [contactA\<lparr>title := ''Rector'', updatedAt := 7\<rparr>, contactB, contactC]\<rparr>) \<and>
   deleteContact env_ok (Some admin0) ''ffffffffffffffffffffffff'' db0 =
     (Next (CustomError ''Contact not found'' 404), db0) \<and>
   deleteContact env_ok (Some admin0) ''B20000000000000000000002'' db0 =
     (Respond 200 (SuccessMessageBody True ''Contact deleted successfully''),
      db0\<lparr>contacts := [contactA, contactC]\<rparr>)"
proof -
  let ?b = "\<lparr>body_name = None, body_title = Some '' Rector '', body_email = None\<rparr>"
  let ?f = "''ffffffffffffffffffffffff''"
  have a: "user_level_id admin0 \<in> {2, 3}" by (simp add: admin0_def)
  have w: "wf_db db0" by (simp add: wf_db_def fixture_defs hexValue_def)
  have t: "trim '' Rector '' = ''Rector''" by (simp add: trim_def isWhiteSpace_def)
  have cA: "castObjectId ''A10000000000000000000001'' = Some oidA"
    by (simp add: castObjectId_def isHexDigit_def hexValue_def oidA_def)
  have cB: "castObjectId ''B20000000000000000000002'' = Some oidB"
    by (simp add: castObjectId_def isHexDigit_def hexValue_def oidB_def)
  have cF: "castObjectId ?f = Some (map hexValue ?f)"
    by (simp add: castObjectId_def isHexDigit_def)
  have nb: "\<forall>s. Some s \<in> {body_name ?b, body_title ?b, body_email ?b} \<longrightarrow> trim s \<noteq> []"
    by (simp add: t)
  have nr: "\<And>i. \<not> rejects env_ok (ContactFindByIdAndUpdate i (updateOfBody ?b))"
    "\<And>i. \<not> rejects env_ok (ContactFindByIdAndDelete i)" by (simp_all add: env_ok_def)
  have absent: "map hexValue ?f \<notin> cid ` set (contacts db0)"
    by (simp add: fixture_defs hexValue_def)
  have inA: "contactA \<in> set (contacts db0)" "cid contactA = oidA" by (simp_all add: db0_def contactA_def)
  have inB: "contactB \<in> set (contacts db0)" "cid contactB = oidB" by (simp_all add: db0_def contactB_def)
  note thF = update_delete_by_id[OF a w, of ?f "map hexValue ?f" env_ok ?b]
  note thA = update_delete_by_id[OF a w, of "''A10000000000000000000001''" oidA env_ok ?b]
  note thB = update_delete_by_id[OF a w, of "''B20000000000000000000002''" oidB env_ok ?b]
  note u404 = thF[THEN conjunct1, THEN mp, OF conjI[OF cF conjI[OF nr(1) nb]], THEN conjunct1, THEN mp, OF absent]
  note d404 = thF[THEN conjunct2, THEN mp, OF conjI[OF cF nr(2)], THEN conjunct1, THEN mp, OF absent]
  note u200 = thA[THEN conjunct1, THEN mp, OF conjI[OF cA conjI[OF nr(1) nb]], THEN conjunct2,
      THEN bspec, OF inA(1), THEN mp, OF inA(2)]
  note d200 = thB[THEN conjunct2, THEN mp, OF conjI[OF cB nr(2)], THEN conjunct2,
      THEN bspec, OF inB(1), THEN mp, OF inB(2), THEN conjunct1]
  have e1: "updateContact env_ok (Some admin0) ''A10000000000000000000001'' ?b db0 =
     (Respond 200 (MessageContactBody ''Contact updated successfully''
        (contactA\<lparr>title := ''Rector'', updatedAt := 7\<rparr>)),
      db0\<lparr>contacts := [contactA\<lparr>title := ''Rector'', updatedAt := 7\<rparr>, contactB, contactC]\<rparr>)"
    using u200 by (simp add: Let_def t) (simp add: fixture_defs hexValue_def)
  have e2: "deleteContact env_ok (Some admin0) ''B20000000000000000000002'' db0 =
     (Respond 200 (SuccessMessageBody True ''Contact deleted successfully''),
      db0\<lparr>contacts := [contactA, contactC]\<rparr>)"
    using d200 by (simp add: fixture_defs hexValue_def)
  show ?thesis
    by (intro conjI) (rule a w cA cB u404 e1 d404 e2)+
qed

text \<open>
  C6 as stated fails in two ways. An update that sets a field to white space: the id
  resolves to a stored contact, but the update validators reject the trimmed, empty
  name; the handler answers 500 and the contact is not updated. And an id that is not 24
  hexadecimal digits: it resolves to no contact, but its cast throws and the handler
  answers 500, not 404.
\<close>

theorem updateContact_blank_name_counterexample:
  "user_level_id admin0 \<in> {2, 3} \<and> contactA \<in> set (contacts db0) \<and>
   castObjectId ''a10000000000000000000001'' = Some (cid contactA) \<and>
   \<not> rejects env_ok (ContactFindByIdAndUpdate ''a10000000000000000000001''
        (updateOfBody \<lparr>body_name = Some '' '', body_title = None, body_email = None\<rparr>)) \<and>
   updateContact env_ok (Some admin0) ''a10000000000000000000001''
      \<lparr>body_name = Some '' '', body_title = None, body_email = None\<rparr> db0 =
     (Next (CustomError ''Failed to update contact'' 500), db0) \<and>
   castObjectId ''not-an-id'' = None \<and>
   updateContact env_ok (Some admin0) ''not-an-id''
      \<lparr>body_name = Some ''Eve'', body_title = None, body_email = None\<rparr> db0 =
     (Next (CustomError ''Failed to update contact'' 500), db0) \<and>
   deleteContact env_ok (Some admin0) ''not-an-id'' db0 =
     (Next (CustomError ''Failed to delete contact'' 500), db0)"
  by (simp add: eval_defs fixture_defs)


end
